theory Spec2Isabelle
  imports Complex_Main
begin

section \<open>Errors\<close>

text \<open>
  The exceptions that the modelled code (or the NumPy and SciPy calls it makes) can raise.
  A function that can raise returns \<open>error + 'a\<close>, with \<open>Inl\<close> for the exception.
\<close>

datatype error = ValueError | TypeError | IndexError | UnboundLocalError
  | ZeroDivisionError | AttributeError

section \<open>NumPy arrays of rank one and two\<close>

text \<open>
  Floating-point numbers are idealised as reals. An array is either one-dimensional
  (\<open>Arr1 data\<close>, shape \<open>(length data,)\<close>) or two-dimensional (\<open>Arr2 r c rows\<close>, shape
  \<open>(r, c)\<close>, stored as its list of rows). Every array the regularization accepts as a
  reference field or as a weight has rank one or two.
\<close>

datatype ndarray = Arr1 "real list" | Arr2 nat nat "real list list"

fun shape :: "ndarray \<Rightarrow> nat list" where
  "shape (Arr1 v) = [length v]"
| "shape (Arr2 r c rows) = [r, c]"

fun size_nd :: "ndarray \<Rightarrow> nat" where
  "size_nd (Arr1 v) = length v"
| "size_nd (Arr2 r c rows) = r * c"

fun wf_ndarray :: "ndarray \<Rightarrow> bool" where
  "wf_ndarray (Arr1 v) = True"
| "wf_ndarray (Arr2 r c rows) = (length rows = r \<and> list_all (\<lambda>row. length row = c) rows)"

text \<open>\<open>value[:, k]\<close>: column \<open>k\<close> of a two-dimensional array.\<close>

fun get_column :: "ndarray \<Rightarrow> nat \<Rightarrow> error + real list" where
  "get_column (Arr1 v) k = Inl IndexError"
| "get_column (Arr2 r c rows) k =
     (if k < c then Inr (map (\<lambda>row. row ! k) rows) else Inl IndexError)"

text \<open>\<open>np.tile(value, (n, 1))\<close>: \<open>n\<close> copies stacked along the first axis.\<close>

fun np_tile :: "ndarray \<Rightarrow> nat \<Rightarrow> ndarray" where
  "np_tile (Arr1 v) n = Arr2 n (length v) (replicate n v)"
| "np_tile (Arr2 r c rows) n = Arr2 (n * r) c (concat (replicate n rows))"

text \<open>
  The elements of an array in column-major (Fortran) order, and
  \<open>a.reshape((R, C), order="F")\<close>: element \<open>(i, j)\<close> of the result is element
  \<open>j * R + i\<close> of that sequence. The reshape raises when the sizes differ.
\<close>

fun ravel_F :: "ndarray \<Rightarrow> real list" where
  "ravel_F (Arr1 v) = v"
| "ravel_F (Arr2 r c rows) = concat (map (\<lambda>j. map (\<lambda>row. row ! j) rows) [0..<c])"

definition reshape_F :: "ndarray \<Rightarrow> nat \<Rightarrow> nat \<Rightarrow> error + ndarray" where
  "reshape_F a R C =
     (if size_nd a = R * C
      then Inr (Arr2 R C (map (\<lambda>i. map (\<lambda>j. ravel_F a ! (j * R + i)) [0..<C]) [0..<R]))
      else Inl ValueError)"

text \<open>\<open>a.reshape((-1, C), order="F")\<close>: the number of rows is inferred.\<close>

definition reshape_F_auto :: "ndarray \<Rightarrow> nat \<Rightarrow> error + ndarray" where
  "reshape_F_auto a C =
     (if C = 0 \<or> size_nd a mod C \<noteq> 0 then Inl ValueError
      else reshape_F a (size_nd a div C) C)"

text \<open>\<open>np.linalg.norm(a, axis=1)\<close>: the Euclidean norm of every row.\<close>

definition row_norm :: "real list \<Rightarrow> real" where
  "row_norm row = sqrt (sum_list (map (\<lambda>x. x * x) row))"

fun norm_axis1 :: "ndarray \<Rightarrow> error + real list" where
  "norm_axis1 (Arr1 v) = Inl ValueError"
| "norm_axis1 (Arr2 r c rows) = Inr (map row_norm rows)"

section \<open>SciPy sparse matrices\<close>

text \<open>
  A sparse matrix is its shape and its entries; only entries inside the shape are ever
  read. \<open>dense\<close> lists the entries row by row (\<open>A.toarray()\<close>).
\<close>

datatype spmatrix = SpMat (nrows: nat) (ncols: nat) (entry: "nat \<Rightarrow> nat \<Rightarrow> real")

definition dense :: "spmatrix \<Rightarrow> real list list" where
  "dense A = map (\<lambda>i. map (\<lambda>j. entry A i j) [0..<ncols A]) [0..<nrows A]"

definition sp_diags :: "real list \<Rightarrow> spmatrix" where
  "sp_diags v = SpMat (length v) (length v) (\<lambda>i j. if i = j \<and> i < length v then v ! i else 0)"

definition csr_zeros :: "nat \<Rightarrow> nat \<Rightarrow> spmatrix" where
  "csr_zeros r c = SpMat r c (\<lambda>i j. 0)"

definition sp_neg :: "spmatrix \<Rightarrow> spmatrix" where
  "sp_neg A = SpMat (nrows A) (ncols A) (\<lambda>i j. - entry A i j)"

definition sp_transpose :: "spmatrix \<Rightarrow> spmatrix" where
  "sp_transpose A = SpMat (ncols A) (nrows A) (\<lambda>i j. entry A j i)"

definition hstack2 :: "spmatrix \<Rightarrow> spmatrix \<Rightarrow> spmatrix" where
  "hstack2 A B = SpMat (nrows A) (ncols A + ncols B)
     (\<lambda>i j. if j < ncols A then entry A i j else entry B i (j - ncols A))"

definition vstack2 :: "spmatrix \<Rightarrow> spmatrix \<Rightarrow> spmatrix" where
  "vstack2 A B = SpMat (nrows A + nrows B) (ncols A)
     (\<lambda>i j. if i < nrows A then entry A i j else entry B (i - nrows A) j)"

fun hstack :: "spmatrix list \<Rightarrow> spmatrix" where
  "hstack [] = csr_zeros 0 0"
| "hstack [A] = A"
| "hstack (A # B # Bs) = hstack2 A (hstack (B # Bs))"

fun vstack :: "spmatrix list \<Rightarrow> spmatrix" where
  "vstack [] = csr_zeros 0 0"
| "vstack [A] = A"
| "vstack (A # B # Bs) = vstack2 A (vstack (B # Bs))"

text \<open>
  \<open>sp.bmat(blocks)\<close>: the blocks of one block row must have the same number of rows, and
  the blocks of one block column the same number of columns; otherwise SciPy raises.
\<close>

definition blocks_compatible :: "spmatrix list list \<Rightarrow> bool" where
  "blocks_compatible blocks =
     (list_all (\<lambda>brow. brow \<noteq> [] \<and> list_all (\<lambda>B. nrows B = nrows (hd brow)) brow) blocks
      \<and> list_all (\<lambda>brow. map ncols brow = map ncols (hd blocks)) blocks)"

definition sp_bmat :: "spmatrix list list \<Rightarrow> error + spmatrix" where
  "sp_bmat blocks =
     (if blocks_compatible blocks then Inr (vstack (map hstack blocks)) else Inl ValueError)"

text \<open>\<open>sp.block_diag(mats)\<close>.\<close>

fun sp_block_diag :: "spmatrix list \<Rightarrow> spmatrix" where
  "sp_block_diag [] = csr_zeros 0 0"
| "sp_block_diag (A # As) =
     (let B = sp_block_diag As in
      SpMat (nrows A + nrows B) (ncols A + ncols B)
        (\<lambda>i j. if i < nrows A \<and> j < ncols A then entry A i j
                else if nrows A \<le> i \<and> ncols A \<le> j then entry B (i - nrows A) (j - ncols A)
                else 0))"

text \<open>Products: sparse with vector, sparse with sparse, sparse with a dense list of rows.\<close>

definition matvec :: "spmatrix \<Rightarrow> real list \<Rightarrow> real list" where
  "matvec A v = map (\<lambda>i. \<Sum>j<ncols A. entry A i j * v ! j) [0..<nrows A]"

definition matmul :: "spmatrix \<Rightarrow> spmatrix \<Rightarrow> spmatrix" where
  "matmul A B = SpMat (nrows A) (ncols B) (\<lambda>i k. \<Sum>j<ncols A. entry A i j * entry B j k)"

definition matdense :: "spmatrix \<Rightarrow> real list list \<Rightarrow> nat \<Rightarrow> real list list" where
  "matdense A rows c =
     map (\<lambda>i. map (\<lambda>k. \<Sum>j<ncols A. entry A i j * rows ! j ! k) [0..<c]) [0..<nrows A]"

text \<open>The same products as the operators \<open>@\<close> and \<open>*\<close> perform them, with the shape check.\<close>

definition sp_matvec :: "spmatrix \<Rightarrow> real list \<Rightarrow> error + real list" where
  "sp_matvec A v = (if ncols A = length v then Inr (matvec A v) else Inl ValueError)"

definition sp_matmul :: "spmatrix \<Rightarrow> spmatrix \<Rightarrow> error + spmatrix" where
  "sp_matmul A B = (if ncols A = nrows B then Inr (matmul A B) else Inl ValueError)"

fun sp_dot :: "spmatrix \<Rightarrow> ndarray \<Rightarrow> error + ndarray" where
  "sp_dot A (Arr1 v) = (if ncols A = length v then Inr (Arr1 (matvec A v)) else Inl ValueError)"
| "sp_dot A (Arr2 r c rows) =
     (if ncols A = r then Inr (Arr2 (nrows A) c (matdense A rows c)) else Inl ValueError)"

section \<open>Mesh and mapping\<close>

text \<open>
  The regularization mesh and the mapping are collaborators of the module; the module
  reads the cell count, the dimension and the cell-to-face averaging operators of the
  mesh, and the output length, the action and the derivative of the mapping.
  \<open>map_shape0 = None\<close> stands for the output length \<open>"*"\<close> of an identity map of
  unspecified size.
\<close>

datatype orientation = Ox | Oy | Oz

record reg_mesh =
  nC :: nat
  dim_m :: nat
  aveCC2F :: "orientation \<Rightarrow> spmatrix"

record mapping =
  map_shape0 :: "nat option"
  map_apply :: "real list \<Rightarrow> real list"
  map_deriv :: "real list \<Rightarrow> spmatrix"

section \<open>BaseVectorRegularization\<close>

text \<open>
  \<open>n_comp\<close>: the dimension of the mesh for a mapping of output length \<open>"*"\<close>, and
  \<open>int(shape[0] / nC)\<close> otherwise, which raises for a mesh without cells.
\<close>

definition n_comp :: "reg_mesh \<Rightarrow> mapping \<Rightarrow> error + nat" where
  "n_comp mesh mp =
     (case map_shape0 mp of
        None \<Rightarrow> Inr (dim_m mesh)
      | Some k \<Rightarrow> if nC mesh = 0 then Inl ZeroDivisionError else Inr (k div nC mesh))"

definition weights_shapes :: "reg_mesh \<Rightarrow> nat \<Rightarrow> nat list list" where
  "weights_shapes mesh n = [[nC mesh], [n * nC mesh], [nC mesh, n]]"

section \<open>CrossReferenceRegularization\<close>

datatype refval = RefScalar real | RefArray "real list"

record cross_reference =
  regularization_mesh :: reg_mesh
  cr_mapping :: mapping
  cr_weights :: "(string \<times> ndarray) list"
  ref_dir :: "ndarray option"
  X_op :: "spmatrix option"
  W_cache :: "spmatrix option"
  reference_model :: "refval option"

text \<open>
  The setter of \<open>ref_dir\<close>. The result is the exception raised, if any, and the object
  afterwards: an exception raised after the assignment of \<open>_ref_dir\<close> leaves the new
  field stored and the operator as it was.
\<close>

definition ref_dir_setter :: "cross_reference \<Rightarrow> ndarray \<Rightarrow> error option \<times> cross_reference" where
  "ref_dir_setter self value0 =
     (let mesh = regularization_mesh self; n = nC mesh in
      case (if shape value0 \<noteq> [n, dim_m mesh]
            then (if shape value0 = [dim_m mesh] then Inr (np_tile value0 n) else Inl ValueError)
            else Inr value0) of
        Inl e \<Rightarrow> (Some e, self)
      | Inr val \<Rightarrow>
          (let self1 = self\<lparr>ref_dir := Some val\<rparr> in
           (case get_column val 0 of
              Inl e \<Rightarrow> (Some e, self1)
            | Inr c0 \<Rightarrow>
                (case get_column val 1 of
                   Inl e \<Rightarrow> (Some e, self1)
                 | Inr c1 \<Rightarrow>
                     (let R0 = sp_diags c0; R1 = sp_diags c1 in
                      (case (if shape val ! 1 = 2 then sp_bmat [[R1, sp_neg R0]]
                             else if shape val ! 1 = 3 then
                               (case get_column val 2 of
                                  Inl e \<Rightarrow> Inl e
                                | Inr c2 \<Rightarrow>
                                    (let Z = csr_zeros n n; R2 = sp_diags c2 in
                                     sp_bmat [[Z, R2, sp_neg R1],
                                              [sp_neg R2, Z, R0],
                                              [R1, sp_neg R0, Z]]))
                             else Inl UnboundLocalError) of
                         Inl e \<Rightarrow> (Some e, self1)
                       | Inr X \<Rightarrow> (None, self1\<lparr>X_op := Some X\<rparr>)))))))"

text \<open>\<open>f_m\<close>: the operator applied to the mapped model.\<close>

definition f_m :: "cross_reference \<Rightarrow> real list \<Rightarrow> error + real list" where
  "f_m self m =
     (case X_op self of
        None \<Rightarrow> Inl AttributeError
      | Some X \<Rightarrow> sp_matvec X (map_apply (cr_mapping self) m))"

text \<open>
  The cell-wise cross product as the specification words it: in two dimensions the
  out-of-plane component of \<open>a \<times> b\<close>, in three dimensions the vector \<open>a \<times> b\<close>.
\<close>

definition cross2 :: "real \<times> real \<Rightarrow> real \<times> real \<Rightarrow> real" where
  "cross2 a b = fst a * snd b - snd a * fst b"

fun cross3 :: "real \<times> real \<times> real \<Rightarrow> real \<times> real \<times> real \<Rightarrow> real \<times> real \<times> real" where
  "cross3 (a1, a2, a3) (b1, b2, b3) = (a2 * b3 - a3 * b2, a3 * b1 - a1 * b3, a1 * b2 - a2 * b1)"


text \<open>
  \<open>__init__\<close>. The constructor of the parent classes is a collaborator and is taken as
  the parameter \<open>super_init\<close>; it receives the keyword arguments that are left after the
  key \<open>reference_model\<close> has been popped. The last statement assigns \<open>0.0\<close> to
  \<open>reference_model\<close>.
\<close>

definition cross_reference_init ::
  "('m \<Rightarrow> 'a \<Rightarrow> 'p \<Rightarrow> 'w \<Rightarrow> (string \<rightharpoonup> 'v) \<Rightarrow> error + cross_reference)
   \<Rightarrow> 'm \<Rightarrow> ndarray \<Rightarrow> 'a \<Rightarrow> 'p \<Rightarrow> 'w \<Rightarrow> (string \<rightharpoonup> 'v) \<Rightarrow> error + cross_reference" where
  "cross_reference_init super_init mesh ref_dir0 active_cells mp ws kwargs =
     (let kwargs1 = kwargs(''reference_model'' := None) in
      case super_init mesh active_cells mp ws kwargs1 of
        Inl e \<Rightarrow> Inl e
      | Inr self \<Rightarrow>
          (case ref_dir_setter self ref_dir0 of
             (Some e, self1) \<Rightarrow> Inl e
           | (None, self1) \<Rightarrow> Inr (self1\<lparr>reference_model := Some (RefScalar 0)\<rparr>)))"

text \<open>
  The property \<open>W\<close> of the cross-reference regularization. The loop over the registered
  weights multiplies the accumulator in place; a weight of neither shape is skipped.
  The result is the matrix returned and the object with its cache filled.
\<close>

fun cross_reference_weights :: "nat \<Rightarrow> nat \<Rightarrow> ndarray list \<Rightarrow> real list \<Rightarrow> error + real list" where
  "cross_reference_weights n d [] w = Inr w"
| "cross_reference_weights n d (val # rest) w =
     (if shape val = [n] then cross_reference_weights n d rest (map2 (*) w (ravel_F val))
      else if size_nd val = d * n then
        (case reshape_F val n d of
           Inl e \<Rightarrow> Inl e
         | Inr a \<Rightarrow>
             (case norm_axis1 a of
                Inl e \<Rightarrow> Inl e
              | Inr nr \<Rightarrow> cross_reference_weights n d rest (map2 (*) w nr)))
      else cross_reference_weights n d rest w)"

definition cross_reference_W :: "cross_reference \<Rightarrow> (error + spmatrix) \<times> cross_reference" where
  "cross_reference_W self =
     (case W_cache self of
        Some W \<Rightarrow> (Inr W, self)
      | None \<Rightarrow>
          (let mesh = regularization_mesh self; n = nC mesh in
           case cross_reference_weights n (dim_m mesh) (map snd (cr_weights self))
                  (replicate n 1) of
             Inl e \<Rightarrow> (Inl e, self)
           | Inr w \<Rightarrow>
               (let w' = map sqrt w;
                    diag = (if dim_m mesh = 2 then w' else w' @ w' @ w');
                    W = sp_diags diag
                in (Inr W, self\<lparr>W_cache := Some W\<rparr>))))"

section \<open>BaseAmplitude\<close>

text \<open>
  Modelled from the spec: \<open>_delta_m\<close> is defined in the base module of the
  regularization package, which is not among the sources. The specification calls its
  result the reference-shifted model: the model itself when no reference model is set,
  and the model minus the reference model otherwise (with NumPy's broadcasting of a
  one-element operand).
\<close>

definition delta_m :: "real list option \<Rightarrow> real list \<Rightarrow> error + real list" where
  "delta_m ref m =
     (case ref of
        None \<Rightarrow> Inr m
      | Some r \<Rightarrow>
          if length r = length m then Inr (map2 (\<lambda>ri mi. - ri + mi) r m)
          else if length r = 1 then Inr (map (\<lambda>mi. - (r ! 0) + mi) m)
          else if length m = 1 then Inr (map (\<lambda>ri. - ri + m ! 0) r)
          else Inl ValueError)"

record amplitude_reg =
  am_mesh :: reg_mesh
  am_mapping :: mapping
  am_weights :: "(string \<times> ndarray) list"
  am_reference_model :: "real list option"
  am_W_cache :: "spmatrix option"
  am_orientation :: orientation
  cell_gradient :: spmatrix

definition amplitude :: "amplitude_reg \<Rightarrow> real list \<Rightarrow> error + real list" where
  "amplitude self m =
     (case delta_m (am_reference_model self) m of
        Inl e \<Rightarrow> Inl e
      | Inr d \<Rightarrow>
          (case n_comp (am_mesh self) (am_mapping self) of
             Inl e \<Rightarrow> Inl e
           | Inr n \<Rightarrow>
               (case reshape_F (Arr1 (map_apply (am_mapping self) d)) (nC (am_mesh self)) n of
                  Inl e \<Rightarrow> Inl e
                | Inr a \<Rightarrow> norm_axis1 a)))"

text \<open>
  \<open>deriv\<close> and \<open>deriv2\<close> read three attributes of the object, which the subclasses
  provide: \<open>J\<close> is the value of \<open>self.f_m_deriv(m)\<close>, \<open>W\<close> the value of \<open>self.W\<close> and
  \<open>n\<close> the value of \<open>self.n_comp\<close>; \<open>d_m\<close> is the value of \<open>self._delta_m(m)\<close>.
  An exception raised while one of them is evaluated propagates before anything below
  runs.
\<close>

definition deriv :: "spmatrix \<Rightarrow> spmatrix \<Rightarrow> nat \<Rightarrow> real list \<Rightarrow> error + real list" where
  "deriv J W n d_m =
     (case sp_matmul (sp_transpose W) W of
        Inl e \<Rightarrow> Inl e
      | Inr WtW \<Rightarrow>
          (case sp_matvec J d_m of
             Inl e \<Rightarrow> Inl e
           | Inr y \<Rightarrow>
               (case reshape_F_auto (Arr1 y) n of
                  Inl e \<Rightarrow> Inl e
                | Inr Y \<Rightarrow>
                    (case sp_dot WtW Y of
                       Inl e \<Rightarrow> Inl e
                     | Inr Z \<Rightarrow> sp_matvec (sp_transpose J) (ravel_F Z)))))"

datatype hessian = HessMat spmatrix | HessVec "real list"

definition deriv2 :: "spmatrix \<Rightarrow> spmatrix \<Rightarrow> nat \<Rightarrow> real list option \<Rightarrow> error + hessian" where
  "deriv2 J W n v =
     (case v of
        None \<Rightarrow>
          (case sp_matmul (sp_transpose W) W of
             Inl e \<Rightarrow> Inl e
           | Inr WtW \<Rightarrow>
               (case sp_matmul (sp_block_diag (replicate n WtW)) J of
                  Inl e \<Rightarrow> Inl e
                | Inr A \<Rightarrow>
                    (case sp_matmul (sp_transpose J) A of
                       Inl e \<Rightarrow> Inl e
                     | Inr H \<Rightarrow> Inr (HessMat H))))
      | Some u \<Rightarrow>
          (case sp_matmul (sp_transpose W) W of
             Inl e \<Rightarrow> Inl e
           | Inr WtW \<Rightarrow>
               (case sp_matvec J u of
                  Inl e \<Rightarrow> Inl e
                | Inr y \<Rightarrow>
                    (case reshape_F_auto (Arr1 y) n of
                       Inl e \<Rightarrow> Inl e
                     | Inr Y \<Rightarrow>
                         (case sp_dot WtW Y of
                            Inl e \<Rightarrow> Inl e
                          | Inr Z \<Rightarrow>
                              (case sp_matvec (sp_transpose J) (ravel_F Z) of
                                 Inl e \<Rightarrow> Inl e
                               | Inr g \<Rightarrow> Inr (HessVec g)))))))"

section \<open>AmplitudeSmallness\<close>

fun amplitude_smallness_weights ::
  "reg_mesh \<Rightarrow> mapping \<Rightarrow> ndarray list \<Rightarrow> real list \<Rightarrow> error + real list" where
  "amplitude_smallness_weights mesh mp [] w = Inr w"
| "amplitude_smallness_weights mesh mp (val # rest) w =
     (if shape val = [nC mesh]
      then amplitude_smallness_weights mesh mp rest (map2 (*) w (ravel_F val))
      else
        (case n_comp mesh mp of
           Inl e \<Rightarrow> Inl e
         | Inr n \<Rightarrow>
             if shape val = [n * nC mesh] then
               (case reshape_F val (nC mesh) n of
                  Inl e \<Rightarrow> Inl e
                | Inr a \<Rightarrow>
                    (case norm_axis1 a of
                       Inl e \<Rightarrow> Inl e
                     | Inr nr \<Rightarrow> amplitude_smallness_weights mesh mp rest (map2 (*) w nr)))
             else amplitude_smallness_weights mesh mp rest w))"

definition amplitude_smallness_W :: "amplitude_reg \<Rightarrow> (error + spmatrix) \<times> amplitude_reg" where
  "amplitude_smallness_W self =
     (case am_W_cache self of
        Some W \<Rightarrow> (Inr W, self)
      | None \<Rightarrow>
          (case amplitude_smallness_weights (am_mesh self) (am_mapping self)
                  (map snd (am_weights self)) (replicate (nC (am_mesh self)) 1) of
             Inl e \<Rightarrow> (Inl e, self)
           | Inr w \<Rightarrow>
               (let W = sp_diags (map sqrt w) in (Inr W, self\<lparr>am_W_cache := Some W\<rparr>))))"

section \<open>AmplitudeSmoothnessFirstOrder\<close>

text \<open>
  The accumulator of the loop starts as the Python float \<open>1.0\<close> and becomes an array at
  the first in-place multiplication. \<open>imul a b\<close> is \<open>a *= b\<close> for an array \<open>a\<close>: the
  operand \<open>b\<close> is broadcast to the shape of \<open>a\<close>, and NumPy raises when that is not
  possible. \<open>sp.diags\<close> accepts a one-dimensional array only.
\<close>

datatype npval = PyFloat real | NdArr ndarray

fun scale_nd :: "real \<Rightarrow> ndarray \<Rightarrow> ndarray" where
  "scale_nd s (Arr1 v) = Arr1 (map (\<lambda>x. s * x) v)"
| "scale_nd s (Arr2 r c rows) = Arr2 r c (map (map (\<lambda>x. s * x)) rows)"

fun imul :: "ndarray \<Rightarrow> ndarray \<Rightarrow> error + ndarray" where
  "imul (Arr1 a) (Arr1 b) =
     (if length b = length a then Inr (Arr1 (map2 (*) a b))
      else if length b = 1 then Inr (Arr1 (map (\<lambda>x. x * b ! 0) a))
      else Inl ValueError)"
| "imul (Arr1 a) (Arr2 r c rows) = Inl ValueError"
| "imul (Arr2 r c rows) (Arr1 b) =
     (if length b = c then Inr (Arr2 r c (map (\<lambda>row. map2 (*) row b) rows))
      else if length b = 1 then Inr (Arr2 r c (map (map (\<lambda>x. x * b ! 0)) rows))
      else Inl ValueError)"
| "imul (Arr2 r c rows) (Arr2 r' c' rows') =
     (if (r' = r \<or> r' = 1) \<and> (c' = c \<or> c' = 1)
      then Inr (Arr2 r c
             (map (\<lambda>i. map (\<lambda>j. rows ! i ! j
                                  * rows' ! (if r' = r then i else 0) ! (if c' = c then j else 0))
                        [0..<c]) [0..<r]))
      else Inl ValueError)"

fun np_imul :: "npval \<Rightarrow> ndarray \<Rightarrow> error + npval" where
  "np_imul (PyFloat s) b = Inr (NdArr (scale_nd s b))"
| "np_imul (NdArr a) b = (case imul a b of Inl e \<Rightarrow> Inl e | Inr a' \<Rightarrow> Inr (NdArr a'))"

fun np_sqrt :: "npval \<Rightarrow> npval" where
  "np_sqrt (PyFloat s) = PyFloat (sqrt s)"
| "np_sqrt (NdArr (Arr1 v)) = NdArr (Arr1 (map sqrt v))"
| "np_sqrt (NdArr (Arr2 r c rows)) = NdArr (Arr2 r c (map (map sqrt) rows))"

fun sp_diags_any :: "npval \<Rightarrow> error + spmatrix" where
  "sp_diags_any (PyFloat s) = Inl TypeError"
| "sp_diags_any (NdArr (Arr1 v)) = Inr (sp_diags v)"
| "sp_diags_any (NdArr (Arr2 r c rows)) = Inl ValueError"

definition smoothness_weights_shapes :: "nat \<Rightarrow> nat \<Rightarrow> nat \<Rightarrow> nat list list" where
  "smoothness_weights_shapes n_c n_f n =
     [[n_f], [n * n_f], [n_f, n], [n_c], [n * n_c], [n_c, n]]"

fun amplitude_smoothness_weights ::
  "reg_mesh \<Rightarrow> mapping \<Rightarrow> spmatrix \<Rightarrow> ndarray list \<Rightarrow> npval \<Rightarrow> error + npval" where
  "amplitude_smoothness_weights mesh mp ave [] w = Inr w"
| "amplitude_smoothness_weights mesh mp ave (vals # rest) w =
     (case (if hd (shape vals) = nC mesh then sp_dot ave vals
            else if shape vals \<noteq> [nrows ave] then
              (case n_comp mesh mp of
                 Inl e \<Rightarrow> Inl e
               | Inr n \<Rightarrow>
                   (case reshape_F_auto vals n of
                      Inl e \<Rightarrow> Inl e
                    | Inr a \<Rightarrow>
                        (case norm_axis1 a of
                           Inl e \<Rightarrow> Inl e
                         | Inr nr \<Rightarrow>
                             if length nr = nC mesh then sp_dot ave (Arr1 nr)
                             else Inr (Arr1 nr))))
            else Inr vals) of
        Inl e \<Rightarrow> Inl e
      | Inr vals' \<Rightarrow>
          (case np_imul w vals' of
             Inl e \<Rightarrow> Inl e
           | Inr w' \<Rightarrow> amplitude_smoothness_weights mesh mp ave rest w'))"

definition amplitude_smoothness_W :: "amplitude_reg \<Rightarrow> (error + spmatrix) \<times> amplitude_reg" where
  "amplitude_smoothness_W self =
     (case am_W_cache self of
        Some W \<Rightarrow> (Inr W, self)
      | None \<Rightarrow>
          (let average_cell_2_face = aveCC2F (am_mesh self) (am_orientation self) in
           case amplitude_smoothness_weights (am_mesh self) (am_mapping self)
                  average_cell_2_face (map snd (am_weights self)) (PyFloat 1) of
             Inl e \<Rightarrow> (Inl e, self)
           | Inr w \<Rightarrow>
               (case sp_diags_any (np_sqrt w) of
                  Inl e \<Rightarrow> (Inl e, self)
                | Inr W \<Rightarrow> (Inr W, self\<lparr>am_W_cache := Some W\<rparr>))))"

text \<open>\<open>f_m_deriv\<close> of the smoothness term.\<close>

definition smoothness_f_m_deriv :: "amplitude_reg \<Rightarrow> real list \<Rightarrow> error + spmatrix" where
  "smoothness_f_m_deriv self m =
     (case n_comp (am_mesh self) (am_mapping self) of
        Inl e \<Rightarrow> Inl e
      | Inr n \<Rightarrow>
          (case delta_m (am_reference_model self) m of
             Inl e \<Rightarrow> Inl e
           | Inr d \<Rightarrow>
               sp_matmul (sp_block_diag (replicate n (cell_gradient self)))
                 (map_deriv (am_mapping self) d)))"

section \<open>VectorAmplitude\<close>

text \<open>
  The argument \<open>mesh\<close> of the constructor is any Python object: a mesh of the
  discretization library, a regularization mesh, or something else. The constructors
  of the terms and of the parent class are collaborators; a term is recorded by its
  class, its orientation, its mesh and its mapping. The constructor is given the list
  of the terms allocated so far and returns it extended by those it allocates, next to
  the exception raised or the object built.
\<close>

datatype mesh_arg = BaseMesh reg_mesh | RegularizationMesh reg_mesh | NotAMesh

datatype term_class = AmplitudeSmallness | AmplitudeSmoothnessFirstOrder orientation

record amp_term =
  term_class :: term_class
  term_mesh :: reg_mesh
  term_mapping :: "mapping option"

record vector_amplitude =
  va_mesh :: reg_mesh
  va_active_cells :: "bool list option"
  va_mapping :: "mapping option"
  objfcts :: "amp_term list"

definition vector_amplitude_init ::
  "mesh_arg \<Rightarrow> mapping option \<Rightarrow> bool list option \<Rightarrow> amp_term list
   \<Rightarrow> (error + vector_amplitude) \<times> amp_term list" where
  "vector_amplitude_init mesh mp active_cells allocated =
     (case (case mesh of
              NotAMesh \<Rightarrow> Inl TypeError
            | BaseMesh b \<Rightarrow> Inr b
            | RegularizationMesh r \<Rightarrow> Inr r) of
        Inl e \<Rightarrow> (Inl e, allocated)
      | Inr rmesh \<Rightarrow>
          (let objs = [\<lparr>term_class = AmplitudeSmallness, term_mesh = rmesh, term_mapping = mp\<rparr>,
                       \<lparr>term_class = AmplitudeSmoothnessFirstOrder Ox, term_mesh = rmesh,
                        term_mapping = mp\<rparr>];
               objs1 = (if dim_m rmesh > 1
                        then objs @ [\<lparr>term_class = AmplitudeSmoothnessFirstOrder Oy,
                                      term_mesh = rmesh, term_mapping = mp\<rparr>]
                        else objs);
               objs2 = (if dim_m rmesh > 2
                        then objs1 @ [\<lparr>term_class = AmplitudeSmoothnessFirstOrder Oz,
                                       term_mesh = rmesh, term_mapping = mp\<rparr>]
                        else objs1)
           in (Inr \<lparr>va_mesh = rmesh, va_active_cells = active_cells, va_mapping = mp,
                    objfcts = objs2\<rparr>,
               allocated @ objs2)))"

section \<open>The reduction of a weight as the specification words it\<close>

text \<open>
  The specification reduces a registered weight to one scalar per cell: a weight of
  shape \<open>(nC,)\<close> gives its entry for the cell, and a weight given per component gives
  the Euclidean norm, across the \<open>d\<close> components, of its entries for the cell. The
  entry of component \<open>j\<close> and cell \<open>i\<close> is entry \<open>j * nC + i\<close> of a flat weight and
  entry \<open>(i, j)\<close> of a two-dimensional one.
\<close>

fun reduced_weight :: "nat \<Rightarrow> nat \<Rightarrow> ndarray \<Rightarrow> nat \<Rightarrow> real" where
  "reduced_weight n d (Arr1 v) i =
     (if length v = n then v ! i else sqrt (\<Sum>j<d. v ! (j * n + i) * v ! (j * n + i)))"
| "reduced_weight n d (Arr2 r c rows) i = sqrt (\<Sum>j<d. rows ! i ! j * rows ! i ! j)"

section \<open>Properties\<close>

subsection \<open>Sparse products of block matrices\<close>

lemma sum_lessThan_add:
  fixes f :: "nat \<Rightarrow> real"
  shows "(\<Sum>j<a + b. f j) = (\<Sum>j<a. f j) + (\<Sum>j<b. f (a + j))"
  by (induction b) (simp_all add: add.assoc)

lemma length_matvec [simp]: "length (matvec A v) = nrows A"
  by (simp add: matvec_def)

lemma matvec_nth: "i < nrows A \<Longrightarrow> matvec A v ! i = (\<Sum>j<ncols A. entry A i j * v ! j)"
  by (simp add: matvec_def)

lemma matvec_hstack2:
  assumes "length u = ncols A" "nrows B = nrows A"
  shows "matvec (hstack2 A B) (u @ v) = map2 (+) (matvec A u) (matvec B v)"
  using assms
  by (intro nth_equalityI) (simp_all add: matvec_def hstack2_def sum_lessThan_add nth_append)

lemma matvec_vstack2:
  assumes "ncols B = ncols A"
  shows "matvec (vstack2 A B) w = matvec A w @ matvec B w"
  using assms
  by (intro nth_equalityI) (auto simp add: matvec_def vstack2_def nth_append)

lemma sum_diag_pick:
  fixes a :: real and n :: nat
  assumes "i < n"
  shows "(\<Sum>j<n. (if i = j then a else 0) * f j) = a * f i"
proof -
  have "(\<Sum>j<n. (if i = j then a else 0) * f j) = (\<Sum>j<n. if j = i then a * f j else 0)"
    by (intro sum.cong) auto
  also have "\<dots> = a * f i"
    using assms by simp
  finally show ?thesis .
qed

lemma matvec_diags:
  assumes "length u = length c"
  shows "matvec (sp_diags c) u = map2 (*) c u"
  using assms
  by (intro nth_equalityI) (simp_all add: matvec_def sp_diags_def sum_diag_pick)

lemma matvec_neg: "matvec (sp_neg A) u = map uminus (matvec A u)"
  by (intro nth_equalityI) (simp_all add: matvec_def sp_neg_def sum_negf)

lemma matvec_zeros: "matvec (csr_zeros r c) u = replicate r 0"
  by (intro nth_equalityI) (simp_all add: matvec_def csr_zeros_def)


lemma nrows_simps [simp]:
  "nrows (sp_diags v) = length v" "ncols (sp_diags v) = length v"
  "nrows (sp_neg A) = nrows A" "ncols (sp_neg A) = ncols A"
  "nrows (csr_zeros r c) = r" "ncols (csr_zeros r c) = c"
  "nrows (hstack2 A B) = nrows A" "ncols (hstack2 A B) = ncols A + ncols B"
  "nrows (vstack2 A B) = nrows A + nrows B" "ncols (vstack2 A B) = ncols A"
  "nrows (sp_transpose A) = ncols A" "ncols (sp_transpose A) = nrows A"
  "nrows (matmul A B) = nrows A" "ncols (matmul A B) = ncols B"
  by (simp_all add: sp_diags_def sp_neg_def csr_zeros_def hstack2_def vstack2_def
      sp_transpose_def matmul_def)

lemma cross_action_2d:
  assumes "length mx = n" "length my = n" "length rows = n"
  shows "matvec (hstack2 (sp_diags (map (\<lambda>row. row ! 1) rows))
                         (sp_neg (sp_diags (map (\<lambda>row. row ! 0) rows)))) (mx @ my)
         = map (\<lambda>i. cross2 (mx ! i, my ! i) (rows ! i ! 0, rows ! i ! 1)) [0..<n]"
  using assms
  by (intro nth_equalityI)
     (simp_all add: matvec_hstack2 matvec_diags matvec_neg cross2_def)

lemma cross_action_3d:
  assumes "length mx = n" "length my = n" "length mz = n" "length rows = n"
  shows "matvec
           (vstack2
              (hstack2 (csr_zeros n n)
                 (hstack2 (sp_diags (map (\<lambda>row. row ! 2) rows))
                          (sp_neg (sp_diags (map (\<lambda>row. row ! 1) rows)))))
              (vstack2
                 (hstack2 (sp_neg (sp_diags (map (\<lambda>row. row ! 2) rows)))
                    (hstack2 (csr_zeros n n) (sp_diags (map (\<lambda>row. row ! 0) rows))))
                 (hstack2 (sp_diags (map (\<lambda>row. row ! 1) rows))
                    (hstack2 (sp_neg (sp_diags (map (\<lambda>row. row ! 0) rows))) (csr_zeros n n)))))
           (mx @ my @ mz)
         = map (\<lambda>i. fst (cross3 (mx ! i, my ! i, mz ! i)
                                  (rows ! i ! 0, rows ! i ! 1, rows ! i ! 2))) [0..<n]
           @ map (\<lambda>i. fst (snd (cross3 (mx ! i, my ! i, mz ! i)
                                  (rows ! i ! 0, rows ! i ! 1, rows ! i ! 2)))) [0..<n]
           @ map (\<lambda>i. snd (snd (cross3 (mx ! i, my ! i, mz ! i)
                                  (rows ! i ! 0, rows ! i ! 1, rows ! i ! 2)))) [0..<n]"
proof -
  have r1: "matvec (hstack2 (csr_zeros n n)
                 (hstack2 (sp_diags (map (\<lambda>row. row ! 2) rows))
                          (sp_neg (sp_diags (map (\<lambda>row. row ! 1) rows))))) (mx @ my @ mz)
        = map (\<lambda>i. fst (cross3 (mx ! i, my ! i, mz ! i)
                                  (rows ! i ! 0, rows ! i ! 1, rows ! i ! 2))) [0..<n]"
    using assms
    by (intro nth_equalityI)
       (simp_all add: matvec_hstack2 matvec_diags matvec_neg matvec_zeros)
  have r2: "matvec (hstack2 (sp_neg (sp_diags (map (\<lambda>row. row ! 2) rows)))
                    (hstack2 (csr_zeros n n) (sp_diags (map (\<lambda>row. row ! 0) rows)))) (mx @ my @ mz)
        = map (\<lambda>i. fst (snd (cross3 (mx ! i, my ! i, mz ! i)
                                  (rows ! i ! 0, rows ! i ! 1, rows ! i ! 2)))) [0..<n]"
    using assms
    by (intro nth_equalityI)
       (simp_all add: matvec_hstack2 matvec_diags matvec_neg matvec_zeros)
  have r3: "matvec (hstack2 (sp_diags (map (\<lambda>row. row ! 1) rows))
                    (hstack2 (sp_neg (sp_diags (map (\<lambda>row. row ! 0) rows))) (csr_zeros n n))) (mx @ my @ mz)
        = map (\<lambda>i. snd (snd (cross3 (mx ! i, my ! i, mz ! i)
                                  (rows ! i ! 0, rows ! i ! 1, rows ! i ! 2)))) [0..<n]"
    using assms
    by (intro nth_equalityI)
       (simp_all add: matvec_hstack2 matvec_diags matvec_neg matvec_zeros)
  show ?thesis
    by (subst matvec_vstack2, simp, subst matvec_vstack2, simp, simp only: r1 r2 r3)
qed

lemma setter_2d:
  assumes "nC (regularization_mesh self) = n" "dim_m (regularization_mesh self) = 2"
  shows "ref_dir_setter self (Arr2 n 2 rows) =
     (None, self\<lparr>ref_dir := Some (Arr2 n 2 rows),
                  X_op := Some (hstack2 (sp_diags (map (\<lambda>row. row ! 1) rows))
                         (sp_neg (sp_diags (map (\<lambda>row. row ! 0) rows))))\<rparr>)"
  using assms
  by (simp add: ref_dir_setter_def sp_bmat_def blocks_compatible_def Let_def)

lemma setter_3d:
  assumes "nC (regularization_mesh self) = n" "dim_m (regularization_mesh self) = 3"
    and "length rows = n"
  shows "ref_dir_setter self (Arr2 n 3 rows) =
     (None, self\<lparr>ref_dir := Some (Arr2 n 3 rows),
                  X_op := Some (vstack2
              (hstack2 (csr_zeros n n)
                 (hstack2 (sp_diags (map (\<lambda>row. row ! 2) rows))
                          (sp_neg (sp_diags (map (\<lambda>row. row ! 1) rows)))))
              (vstack2
                 (hstack2 (sp_neg (sp_diags (map (\<lambda>row. row ! 2) rows)))
                    (hstack2 (csr_zeros n n) (sp_diags (map (\<lambda>row. row ! 0) rows))))
                 (hstack2 (sp_diags (map (\<lambda>row. row ! 1) rows))
                    (hstack2 (sp_neg (sp_diags (map (\<lambda>row. row ! 0) rows))) (csr_zeros n n)))))\<rparr>)"
  using assms
  by (simp add: ref_dir_setter_def sp_bmat_def blocks_compatible_def Let_def)


text \<open>
  Claim C1. For a reference field of shape \<open>(nC, dim)\<close> with \<open>dim\<close> two or three, the
  setter of \<open>ref_dir\<close> raises nothing and stores an operator \<open>X\<close> that maps a model laid
  out as stacked blocks of length \<open>nC\<close> to its cell-wise cross product with the field.
  In two dimensions \<open>X\<close> is the block row of \<open>diag(r[:,1])\<close> and \<open>-diag(r[:,0])\<close>, of
  shape \<open>(nC, 2 nC)\<close>, and the product has length \<open>nC\<close>; in three dimensions \<open>X\<close> is the
  three-by-three block matrix of the diagonals, of shape \<open>(3 nC, 3 nC)\<close>, and the product
  has length \<open>3 nC\<close>.
\<close>

theorem ref_dir_operator_is_cross_product:
  assumes "nC (regularization_mesh self) = n" and "dim_m (regularization_mesh self) = d"
    and "d = 2 \<or> d = 3" and "wf_ndarray (Arr2 n d rows)"
  shows "\<exists>X. ref_dir_setter self (Arr2 n d rows)
               = (None, self\<lparr>ref_dir := Some (Arr2 n d rows), X_op := Some X\<rparr>)
     \<and> (d = 2 \<longrightarrow>
          sp_bmat [[sp_diags (map (\<lambda>row. row ! 1) rows),
                    sp_neg (sp_diags (map (\<lambda>row. row ! 0) rows))]] = Inr X
          \<and> nrows X = n \<and> ncols X = 2 * n
          \<and> (\<forall>mx my. length mx = n \<and> length my = n \<longrightarrow>
                sp_matvec X (mx @ my)
                = Inr (map (\<lambda>i. cross2 (mx ! i, my ! i) (rows ! i ! 0, rows ! i ! 1)) [0..<n])))
     \<and> (d = 3 \<longrightarrow>
          sp_bmat [[csr_zeros n n, sp_diags (map (\<lambda>row. row ! 2) rows),
                      sp_neg (sp_diags (map (\<lambda>row. row ! 1) rows))],
                   [sp_neg (sp_diags (map (\<lambda>row. row ! 2) rows)), csr_zeros n n,
                      sp_diags (map (\<lambda>row. row ! 0) rows)],
                   [sp_diags (map (\<lambda>row. row ! 1) rows),
                      sp_neg (sp_diags (map (\<lambda>row. row ! 0) rows)), csr_zeros n n]] = Inr X
          \<and> nrows X = 3 * n \<and> ncols X = 3 * n
          \<and> (\<forall>mx my mz. length mx = n \<and> length my = n \<and> length mz = n \<longrightarrow>
                sp_matvec X (mx @ my @ mz)
                = Inr (map (\<lambda>i. fst (cross3 (mx ! i, my ! i, mz ! i)
                                      (rows ! i ! 0, rows ! i ! 1, rows ! i ! 2))) [0..<n]
                     @ map (\<lambda>i. fst (snd (cross3 (mx ! i, my ! i, mz ! i)
                                      (rows ! i ! 0, rows ! i ! 1, rows ! i ! 2)))) [0..<n]
                     @ map (\<lambda>i. snd (snd (cross3 (mx ! i, my ! i, mz ! i)
                                      (rows ! i ! 0, rows ! i ! 1, rows ! i ! 2)))) [0..<n])))"
proof -
  have len: "length rows = n"
    using assms(4) by simp
  from assms(3) show ?thesis
  proof
    assume d: "d = 2"
    show ?thesis
      unfolding d using assms(1,2) len
      by (simp add: setter_2d d sp_bmat_def blocks_compatible_def sp_matvec_def
          cross_action_2d del: One_nat_def)
  next
    assume d: "d = 3"
    show ?thesis
      unfolding d using assms(1,2) len
      by (simp add: setter_3d d sp_bmat_def blocks_compatible_def sp_matvec_def
          cross_action_3d del: One_nat_def cross3.simps)
  qed
qed

theorem ref_dir_operator_is_cross_product_witness:
  "wf_ndarray (Arr2 2 2 [[1, 0], [0, 1]])
   \<and> (\<exists>X. ref_dir_setter
            \<lparr>regularization_mesh = \<lparr>nC = 2, dim_m = 2, aveCC2F = (\<lambda>k. csr_zeros 0 0)\<rparr>,
             cr_mapping = \<lparr>map_shape0 = None, map_apply = (\<lambda>m. m),
                           map_deriv = (\<lambda>m. csr_zeros 0 0)\<rparr>,
             cr_weights = [], ref_dir = None, X_op = None, W_cache = None,
             reference_model = None\<rparr>
            (Arr2 2 2 [[1, 0], [0, 1]])
          = (None,
             \<lparr>regularization_mesh = \<lparr>nC = 2, dim_m = 2, aveCC2F = (\<lambda>k. csr_zeros 0 0)\<rparr>,
              cr_mapping = \<lparr>map_shape0 = None, map_apply = (\<lambda>m. m),
                            map_deriv = (\<lambda>m. csr_zeros 0 0)\<rparr>,
              cr_weights = [], ref_dir = Some (Arr2 2 2 [[1, 0], [0, 1]]), X_op = Some X,
              W_cache = None, reference_model = None\<rparr>)
        \<and> sp_matvec X [1, 1, 0, 0] = Inr [0, 1])"
proof -
  let ?self = "\<lparr>regularization_mesh = \<lparr>nC = 2, dim_m = 2, aveCC2F = (\<lambda>k. csr_zeros 0 0)\<rparr>,
             cr_mapping = \<lparr>map_shape0 = None, map_apply = (\<lambda>m. m),
                           map_deriv = (\<lambda>m. csr_zeros 0 0)\<rparr>,
             cr_weights = [], ref_dir = None, X_op = None, W_cache = None,
             reference_model = None\<rparr>"
  have wf: "wf_ndarray (Arr2 2 2 [[1, 0], [0, 1]])"
    by simp
  obtain X where
    X1: "ref_dir_setter ?self (Arr2 2 2 [[1, 0], [0, 1]])
         = (None, ?self\<lparr>ref_dir := Some (Arr2 2 2 [[1, 0], [0, 1]]), X_op := Some X\<rparr>)"
    and X2: "\<forall>mx my. length mx = 2 \<and> length my = 2 \<longrightarrow>
                sp_matvec X (mx @ my)
                = Inr (map (\<lambda>i. cross2 (mx ! i, my ! i)
                                   ([[1, 0], [0, 1]] ! i ! 0, [[1, 0], [0, 1]] ! i ! 1)) [0..<2])"
    using ref_dir_operator_is_cross_product [of ?self 2 2 "[[1, 0], [0, 1]]", OF _ _ _ wf]
    by auto
  have "sp_matvec X ([1, 1] @ [0, 0])
        = Inr (map (\<lambda>i. cross2 ([1, 1] ! i, [0, 0] ! i)
                                   ([[1, 0], [0, 1]] ! i ! 0, [[1, 0], [0, 1]] ! i ! 1)) [0..<2])"
    using X2 [rule_format, of "[1, 1]" "[0, 0]"] by simp
  also have "\<dots> = Inr [0, 1]"
    by (simp add: cross2_def upt_conv_Cons)
  finally have "sp_matvec X [1, 1, 0, 0] = Inr [0, 1]"
    by simp
  with X1 wf show ?thesis
    by auto
qed

lemma dense_eqI:
  assumes "nrows A = nrows B" "ncols A = ncols B"
    and "\<And>i j. i < nrows A \<Longrightarrow> j < ncols A \<Longrightarrow> entry A i j = entry B i j"
  shows "dense A = dense B"
  using assms by (simp add: dense_def)

lemma cross_X3_skew:
  assumes "length rows = n"
  defines "X \<equiv> vstack2
              (hstack2 (csr_zeros n n)
                 (hstack2 (sp_diags (map (\<lambda>row. row ! 2) rows))
                          (sp_neg (sp_diags (map (\<lambda>row. row ! 1) rows)))))
              (vstack2
                 (hstack2 (sp_neg (sp_diags (map (\<lambda>row. row ! 2) rows)))
                    (hstack2 (csr_zeros n n) (sp_diags (map (\<lambda>row. row ! 0) rows))))
                 (hstack2 (sp_diags (map (\<lambda>row. row ! 1) rows))
                    (hstack2 (sp_neg (sp_diags (map (\<lambda>row. row ! 0) rows))) (csr_zeros n n))))"
  shows "dense (sp_transpose X) = dense (sp_neg X)"
proof (rule dense_eqI)
  show "nrows (sp_transpose X) = nrows (sp_neg X)"
    using assms(1) by (simp add: X_def)
  show "ncols (sp_transpose X) = ncols (sp_neg X)"
    using assms(1) by (simp add: X_def)
next
  fix i j
  assume "i < nrows (sp_transpose X)" and "j < ncols (sp_transpose X)"
  then have ij: "i < 3 * n" "j < 3 * n"
    using assms(1) by (simp_all add: X_def)
  show "entry (sp_transpose X) i j = entry (sp_neg X) i j"
    using ij assms(1) unfolding X_def
    by (cases "i < n"; cases "i < 2 * n"; cases "j < n"; cases "j < 2 * n";
        simp add: sp_transpose_def sp_neg_def vstack2_def hstack2_def csr_zeros_def
          sp_diags_def; fastforce)
qed

lemma setter_broadcast:
  assumes "nC (regularization_mesh self) = n" "dim_m (regularization_mesh self) = length v"
  shows "ref_dir_setter self (Arr1 v) = ref_dir_setter self (Arr2 n (length v) (replicate n v))"
  using assms by (simp add: ref_dir_setter_def)


text \<open>
  Claim C10, as amended. The setter accepts a field of shape \<open>(nC, dim)\<close> and a single
  vector of shape \<open>(dim,)\<close>, which it repeats for every cell. On a three-dimensional
  mesh the stored operator is the three-by-three block matrix of the diagonals of the
  field, square of shape \<open>(3 nC, 3 nC)\<close> and skew-symmetric. On a two-dimensional mesh it
  is the single block row of \<open>diag(r[:,1])\<close> and \<open>-diag(r[:,0])\<close>, of shape \<open>(nC, 2 nC)\<close>;
  with at least one cell it is not square and its transpose is not its negative. Every
  accepted assignment stores the operator of the field assigned, whatever field and
  operator were stored before.
\<close>

theorem cross_operator_shape_and_skew:
  assumes "nC (regularization_mesh self) = n" and "dim_m (regularization_mesh self) = d"
    and "d = 2 \<or> d = 3"
    and "(value0 = Arr2 n d rows \<and> wf_ndarray (Arr2 n d rows))
         \<or> (\<exists>v. value0 = Arr1 v \<and> length v = d \<and> rows = replicate n v)"
    and "wf_ndarray (Arr2 n d rows0)"
  shows "\<exists>X. ref_dir_setter self value0
               = (None, self\<lparr>ref_dir := Some (Arr2 n d rows), X_op := Some X\<rparr>)
     \<and> (d = 3 \<longrightarrow>
          sp_bmat [[csr_zeros n n, sp_diags (map (\<lambda>row. row ! 2) rows),
                      sp_neg (sp_diags (map (\<lambda>row. row ! 1) rows))],
                   [sp_neg (sp_diags (map (\<lambda>row. row ! 2) rows)), csr_zeros n n,
                      sp_diags (map (\<lambda>row. row ! 0) rows)],
                   [sp_diags (map (\<lambda>row. row ! 1) rows),
                      sp_neg (sp_diags (map (\<lambda>row. row ! 0) rows)), csr_zeros n n]] = Inr X
          \<and> nrows X = 3 * n \<and> ncols X = 3 * n
          \<and> dense (sp_transpose X) = dense (sp_neg X))
     \<and> (d = 2 \<longrightarrow>
          sp_bmat [[sp_diags (map (\<lambda>row. row ! 1) rows),
                    sp_neg (sp_diags (map (\<lambda>row. row ! 0) rows))]] = Inr X
          \<and> nrows X = n \<and> ncols X = 2 * n
          \<and> (0 < n \<longrightarrow> nrows X \<noteq> ncols X \<and> dense (sp_transpose X) \<noteq> dense (sp_neg X)))
     \<and> ref_dir_setter (snd (ref_dir_setter self (Arr2 n d rows0))) value0
         = (None, self\<lparr>ref_dir := Some (Arr2 n d rows), X_op := Some X\<rparr>)
     \<and> (\<forall>prev_field prev_X.
          ref_dir_setter (self\<lparr>ref_dir := prev_field, X_op := prev_X\<rparr>) value0
          = (None, self\<lparr>ref_dir := Some (Arr2 n d rows), X_op := Some X\<rparr>))"
proof -
  have len: "length rows = n" "length rows0 = n"
    using assms(4,5) by auto
  have same: "ref_dir_setter s value0 = ref_dir_setter s (Arr2 n d rows)"
    if "nC (regularization_mesh s) = n" "dim_m (regularization_mesh s) = d" for s
    using assms(4) that by (auto simp add: setter_broadcast)
  from assms(3) show ?thesis
  proof
    assume d: "d = 2"
    let ?X = "hstack2 (sp_diags (map (\<lambda>row. row ! 1) rows))
                         (sp_neg (sp_diags (map (\<lambda>row. row ! 0) rows)))"
    have s0: "ref_dir_setter self value0
        = (None, self\<lparr>ref_dir := Some (Arr2 n d rows), X_op := Some ?X\<rparr>)"
      using assms(1,2) by (simp add: same d setter_2d)
    have s1: "ref_dir_setter (snd (ref_dir_setter self (Arr2 n d rows0))) value0
        = (None, self\<lparr>ref_dir := Some (Arr2 n d rows), X_op := Some ?X\<rparr>)"
      using assms(1,2) by (simp add: same d setter_2d)
    have s2: "ref_dir_setter (self\<lparr>ref_dir := prev_field, X_op := prev_X\<rparr>) value0
        = (None, self\<lparr>ref_dir := Some (Arr2 n d rows), X_op := Some ?X\<rparr>)"
      for prev_field prev_X
      using assms(1,2) by (simp add: same d setter_2d)
    have bm: "sp_bmat [[sp_diags (map (\<lambda>row. row ! 1) rows),
                    sp_neg (sp_diags (map (\<lambda>row. row ! 0) rows))]] = Inr ?X"
      by (simp add: sp_bmat_def blocks_compatible_def)
    have dims: "nrows ?X = n" "ncols ?X = 2 * n"
      using len by simp_all
    have "length (dense (sp_transpose ?X)) = 2 * n" "length (dense (sp_neg ?X)) = n"
      using len by (simp_all add: dense_def)
    then have ns: "dense (sp_transpose ?X) \<noteq> dense (sp_neg ?X)" if "0 < n"
      using that by (metis mult_2 add_cancel_right_left less_numeral_extra(3) nat_neq_iff
          add_less_same_cancel1 not_less_zero)
    show ?thesis
      using s0 s1 s2 bm dims ns d by (intro exI [of _ ?X]) simp
  next
    assume d: "d = 3"
    let ?X = "vstack2
              (hstack2 (csr_zeros n n)
                 (hstack2 (sp_diags (map (\<lambda>row. row ! 2) rows))
                          (sp_neg (sp_diags (map (\<lambda>row. row ! 1) rows)))))
              (vstack2
                 (hstack2 (sp_neg (sp_diags (map (\<lambda>row. row ! 2) rows)))
                    (hstack2 (csr_zeros n n) (sp_diags (map (\<lambda>row. row ! 0) rows))))
                 (hstack2 (sp_diags (map (\<lambda>row. row ! 1) rows))
                    (hstack2 (sp_neg (sp_diags (map (\<lambda>row. row ! 0) rows))) (csr_zeros n n))))"
    have s0: "ref_dir_setter self value0
        = (None, self\<lparr>ref_dir := Some (Arr2 n d rows), X_op := Some ?X\<rparr>)"
      using assms(1,2) len by (simp add: same d setter_3d del: One_nat_def)
    have s1: "ref_dir_setter (snd (ref_dir_setter self (Arr2 n d rows0))) value0
        = (None, self\<lparr>ref_dir := Some (Arr2 n d rows), X_op := Some ?X\<rparr>)"
      using assms(1,2) len by (simp add: same d setter_3d del: One_nat_def)
    have s2: "ref_dir_setter (self\<lparr>ref_dir := prev_field, X_op := prev_X\<rparr>) value0
        = (None, self\<lparr>ref_dir := Some (Arr2 n d rows), X_op := Some ?X\<rparr>)"
      for prev_field prev_X
      using assms(1,2) len by (simp add: same d setter_3d del: One_nat_def)
    have bm: "sp_bmat [[csr_zeros n n, sp_diags (map (\<lambda>row. row ! 2) rows),
                      sp_neg (sp_diags (map (\<lambda>row. row ! 1) rows))],
                   [sp_neg (sp_diags (map (\<lambda>row. row ! 2) rows)), csr_zeros n n,
                      sp_diags (map (\<lambda>row. row ! 0) rows)],
                   [sp_diags (map (\<lambda>row. row ! 1) rows),
                      sp_neg (sp_diags (map (\<lambda>row. row ! 0) rows)), csr_zeros n n]] = Inr ?X"
      using len by (simp add: sp_bmat_def blocks_compatible_def del: One_nat_def)
    have dims: "nrows ?X = 3 * n" "ncols ?X = 3 * n"
      using len by simp_all
    have skew: "dense (sp_transpose ?X) = dense (sp_neg ?X)"
      by (rule cross_X3_skew [OF len(1)])
    show ?thesis
      using s0 s1 s2 bm dims skew d
      by (intro exI [of _ ?X]) (simp del: One_nat_def)
  qed
qed


theorem cross_operator_shape_and_skew_witness:
  "wf_ndarray (Arr2 1 3 [[1, 2, 3]]) \<and> wf_ndarray (Arr2 1 3 [[0, 0, 1]])
   \<and> (\<exists>X. ref_dir_setter
            \<lparr>regularization_mesh = \<lparr>nC = 1, dim_m = 3, aveCC2F = (\<lambda>k. csr_zeros 0 0)\<rparr>,
             cr_mapping = \<lparr>map_shape0 = None, map_apply = (\<lambda>m. m),
                           map_deriv = (\<lambda>m. csr_zeros 0 0)\<rparr>,
             cr_weights = [], ref_dir = None, X_op = None, W_cache = None,
             reference_model = None\<rparr>
            (Arr2 1 3 [[1, 2, 3]])
          = (None,
             \<lparr>regularization_mesh = \<lparr>nC = 1, dim_m = 3, aveCC2F = (\<lambda>k. csr_zeros 0 0)\<rparr>,
              cr_mapping = \<lparr>map_shape0 = None, map_apply = (\<lambda>m. m),
                            map_deriv = (\<lambda>m. csr_zeros 0 0)\<rparr>,
              cr_weights = [], ref_dir = Some (Arr2 1 3 [[1, 2, 3]]), X_op = Some X,
              W_cache = None, reference_model = None\<rparr>)
        \<and> nrows X = 3 \<and> ncols X = 3 \<and> dense (sp_transpose X) = dense (sp_neg X)
        \<and> dense X = [[0, 3, - 2], [- 3, 0, 1], [2, - 1, 0]])
   \<and> (\<exists>X. ref_dir_setter
            \<lparr>regularization_mesh = \<lparr>nC = 2, dim_m = 2, aveCC2F = (\<lambda>k. csr_zeros 0 0)\<rparr>,
             cr_mapping = \<lparr>map_shape0 = None, map_apply = (\<lambda>m. m),
                           map_deriv = (\<lambda>m. csr_zeros 0 0)\<rparr>,
             cr_weights = [], ref_dir = None, X_op = None, W_cache = None,
             reference_model = None\<rparr>
            (Arr1 [1, 2])
          = (None,
             \<lparr>regularization_mesh = \<lparr>nC = 2, dim_m = 2, aveCC2F = (\<lambda>k. csr_zeros 0 0)\<rparr>,
              cr_mapping = \<lparr>map_shape0 = None, map_apply = (\<lambda>m. m),
                            map_deriv = (\<lambda>m. csr_zeros 0 0)\<rparr>,
              cr_weights = [], ref_dir = Some (Arr2 2 2 [[1, 2], [1, 2]]), X_op = Some X,
              W_cache = None, reference_model = None\<rparr>)
        \<and> nrows X = 2 \<and> ncols X = 4 \<and> dense (sp_transpose X) \<noteq> dense (sp_neg X)
        \<and> dense X = [[2, 0, - 1, 0], [0, 2, 0, - 1]])"
proof -
  let ?s3 = "\<lparr>regularization_mesh = \<lparr>nC = 1, dim_m = 3, aveCC2F = (\<lambda>k. csr_zeros 0 0)\<rparr>,
             cr_mapping = \<lparr>map_shape0 = None, map_apply = (\<lambda>m. m),
                           map_deriv = (\<lambda>m. csr_zeros 0 0)\<rparr>,
             cr_weights = [], ref_dir = None, X_op = None, W_cache = None,
             reference_model = None\<rparr>"
  let ?s2 = "\<lparr>regularization_mesh = \<lparr>nC = 2, dim_m = 2, aveCC2F = (\<lambda>k. csr_zeros 0 0)\<rparr>,
             cr_mapping = \<lparr>map_shape0 = None, map_apply = (\<lambda>m. m),
                           map_deriv = (\<lambda>m. csr_zeros 0 0)\<rparr>,
             cr_weights = [], ref_dir = None, X_op = None, W_cache = None,
             reference_model = None\<rparr>"
  have wf: "wf_ndarray (Arr2 1 3 [[1, 2, 3]])" and wf0: "wf_ndarray (Arr2 1 3 [[0, 0, 1]])"
    by simp_all
  have in3: "(Arr2 1 3 [[1, 2, 3]] = Arr2 1 3 [[1, 2, 3]] \<and> wf_ndarray (Arr2 1 3 [[1, 2, 3]]))
         \<or> (\<exists>v. Arr2 1 3 [[1, 2, 3]] = Arr1 v \<and> length v = 3 \<and> [[1, 2, 3]] = replicate 1 v)"
    by simp
  obtain X3 where a3: "ref_dir_setter ?s3 (Arr2 1 3 [[1, 2, 3]])
         = (None, ?s3\<lparr>ref_dir := Some (Arr2 1 3 [[1, 2, 3]]), X_op := Some X3\<rparr>)"
    and b3: "sp_bmat [[csr_zeros 1 1, sp_diags (map (\<lambda>row. row ! 2) [[1, 2, 3]]),
                      sp_neg (sp_diags (map (\<lambda>row. row ! 1) [[1, 2, 3]]))],
                   [sp_neg (sp_diags (map (\<lambda>row. row ! 2) [[1, 2, 3]])), csr_zeros 1 1,
                      sp_diags (map (\<lambda>row. row ! 0) [[1, 2, 3]])],
                   [sp_diags (map (\<lambda>row. row ! 1) [[1, 2, 3]]),
                      sp_neg (sp_diags (map (\<lambda>row. row ! 0) [[1, 2, 3]])), csr_zeros 1 1]] = Inr X3"
    and c3: "nrows X3 = 3 * 1" "ncols X3 = 3 * 1" "dense (sp_transpose X3) = dense (sp_neg X3)"
    using cross_operator_shape_and_skew [of ?s3 1 3 "Arr2 1 3 [[1, 2, 3]]" "[[1, 2, 3]]"
        "[[0, 0, 1]]", OF _ _ _ in3 wf0]
    by auto
  have d3: "dense X3 = [[0, 3, - 2], [- 3, 0, 1], [2, - 1, 0]]"
    using b3
    by (auto simp add: sp_bmat_def blocks_compatible_def dense_def vstack2_def hstack2_def
        csr_zeros_def sp_neg_def sp_diags_def upt_conv_Cons)
  have wf2: "wf_ndarray (Arr2 2 2 [[0, 1], [1, 0]])"
    by simp
  have in2: "(Arr1 [1, 2] = Arr2 2 2 [[1, 2], [1, 2]] \<and> wf_ndarray (Arr2 2 2 [[1, 2], [1, 2]]))
         \<or> (\<exists>v. Arr1 [1, 2] = Arr1 v \<and> length v = 2 \<and> [[1, 2], [1, 2]] = replicate 2 v)"
    by (simp add: numeral_2_eq_2)
  obtain X2 where a2: "ref_dir_setter ?s2 (Arr1 [1, 2])
         = (None, ?s2\<lparr>ref_dir := Some (Arr2 2 2 [[1, 2], [1, 2]]), X_op := Some X2\<rparr>)"
    and b2: "sp_bmat [[sp_diags (map (\<lambda>row. row ! 1) [[1, 2], [1, 2]]),
                    sp_neg (sp_diags (map (\<lambda>row. row ! 0) [[1, 2], [1, 2]]))]] = Inr X2"
    and c2: "nrows X2 = 2" "ncols X2 = 2 * 2"
         "(0::nat) < 2 \<longrightarrow> nrows X2 \<noteq> ncols X2 \<and> dense (sp_transpose X2) \<noteq> dense (sp_neg X2)"
    using cross_operator_shape_and_skew [of ?s2 2 2 "Arr1 [1, 2]" "[[1, 2], [1, 2]]"
        "[[0, 1], [1, 0]]", OF _ _ _ in2 wf2]
    by auto
  have d2: "dense X2 = [[2, 0, - 1, 0], [0, 2, 0, - 1]]"
    using b2
    by (auto simp add: sp_bmat_def blocks_compatible_def dense_def hstack2_def
        sp_neg_def sp_diags_def upt_conv_Cons)
  show ?thesis
    using wf wf0 a3 c3 d3 a2 c2 d2 by auto
qed

text \<open>
  The claim as stated fails on a two-dimensional mesh: for one cell and the field
  \<open>[[1, 2]]\<close> the setter accepts the field and stores an operator of shape \<open>(1, 2)\<close>,
  which is not square, and whose transpose is not its negative.
\<close>

theorem cross_operator_square_counterexample:
  "fst (ref_dir_setter
            \<lparr>regularization_mesh = \<lparr>nC = 1, dim_m = 2, aveCC2F = (\<lambda>k. csr_zeros 0 0)\<rparr>,
             cr_mapping = \<lparr>map_shape0 = None, map_apply = (\<lambda>m. m),
                           map_deriv = (\<lambda>m. csr_zeros 0 0)\<rparr>,
             cr_weights = [], ref_dir = None, X_op = None, W_cache = None,
             reference_model = None\<rparr>
            (Arr2 1 2 [[1, 2]])) = None
   \<and> map_option (\<lambda>X. (nrows X, ncols X, dense X, dense (sp_transpose X), dense (sp_neg X)))
       (X_op (snd (ref_dir_setter
            \<lparr>regularization_mesh = \<lparr>nC = 1, dim_m = 2, aveCC2F = (\<lambda>k. csr_zeros 0 0)\<rparr>,
             cr_mapping = \<lparr>map_shape0 = None, map_apply = (\<lambda>m. m),
                           map_deriv = (\<lambda>m. csr_zeros 0 0)\<rparr>,
             cr_weights = [], ref_dir = None, X_op = None, W_cache = None,
             reference_model = None\<rparr>
            (Arr2 1 2 [[1, 2]]))))
     = Some (1, 2, [[2, - 1]], [[2], [- 1]], [[- 2, 1]])"
  by (simp add: setter_2d dense_def sp_transpose_def sp_neg_def hstack2_def sp_diags_def
      upt_conv_Cons)

text \<open>
  Claim C9. The constructor of the cross-reference regularization discards the keyword
  argument \<open>reference_model\<close>: the object built does not depend on it, and the reference
  model of every object built is zero.
\<close>

theorem cross_reference_init_reference_model_zero:
  "cross_reference_init super_init mesh rd ac mp ws (kwargs(''reference_model'' \<mapsto> rm))
     = cross_reference_init super_init mesh rd ac mp ws (kwargs(''reference_model'' := None))
   \<and> (\<forall>self. cross_reference_init super_init mesh rd ac mp ws kwargs = Inr self
          \<longrightarrow> reference_model self = Some (RefScalar 0))"
  by (auto simp add: cross_reference_init_def Let_def split: sum.splits prod.splits option.splits)

theorem cross_reference_init_reference_model_zero_witness:
  "map_sum id reference_model
     (cross_reference_init
        (\<lambda>mesh ac mp ws kw. Inr \<lparr>regularization_mesh = mesh, cr_mapping = mp, cr_weights = ws,
            ref_dir = None, X_op = None, W_cache = None,
            reference_model = map_option RefScalar (kw ''reference_model'')\<rparr>)
        \<lparr>nC = 1, dim_m = 2, aveCC2F = (\<lambda>k. csr_zeros 0 0)\<rparr>
        (Arr1 [1, 0]) ()
        \<lparr>map_shape0 = None, map_apply = (\<lambda>m. m), map_deriv = (\<lambda>m. csr_zeros 0 0)\<rparr>
        [] [''reference_model'' \<mapsto> 5])
   = Inr (Some (RefScalar 0))"
proof -
  let ?init = "cross_reference_init
        (\<lambda>mesh ac mp ws kw. Inr \<lparr>regularization_mesh = mesh, cr_mapping = mp, cr_weights = ws,
            ref_dir = None, X_op = None, W_cache = None,
            reference_model = map_option RefScalar (kw ''reference_model'')\<rparr>)
        \<lparr>nC = 1, dim_m = 2, aveCC2F = (\<lambda>k. csr_zeros 0 0)\<rparr>
        (Arr1 [1, 0]) ()
        \<lparr>map_shape0 = None, map_apply = (\<lambda>m. m), map_deriv = (\<lambda>m. csr_zeros 0 0)\<rparr>
        [] [''reference_model'' \<mapsto> (5::real)]"
  have "\<exists>self. ?init = Inr self"
    by (simp add: cross_reference_init_def ref_dir_setter_def sp_bmat_def blocks_compatible_def
        Let_def)
  then obtain self where s: "?init = Inr self" ..
  from cross_reference_init_reference_model_zero [THEN conjunct2, rule_format, OF s]
  have "reference_model self = Some (RefScalar 0)" .
  with s show ?thesis by simp
qed

text \<open>
  Claim C8, as amended. A mesh argument that is neither a mesh nor a regularization mesh
  makes the constructor raise a type error with no term allocated. For a mesh of either
  kind the constructor raises nothing: it allocates the smallness term and the
  smoothness term along x, then the one along y when the dimension exceeds one and the
  one along z when it exceeds two, all on the same mesh and mapping.
\<close>

theorem vector_amplitude_init_terms:
  "vector_amplitude_init NotAMesh mp ac allocated = (Inl TypeError, allocated)
   \<and> vector_amplitude_init (BaseMesh r) mp ac allocated
     = (Inr \<lparr>va_mesh = r, va_active_cells = ac, va_mapping = mp,
             objfcts = map (\<lambda>c. \<lparr>term_class = c, term_mesh = r, term_mapping = mp\<rparr>)
               ([AmplitudeSmallness, AmplitudeSmoothnessFirstOrder Ox]
                @ (if 1 < dim_m r then [AmplitudeSmoothnessFirstOrder Oy] else [])
                @ (if 2 < dim_m r then [AmplitudeSmoothnessFirstOrder Oz] else []))\<rparr>,
        allocated @ map (\<lambda>c. \<lparr>term_class = c, term_mesh = r, term_mapping = mp\<rparr>)
               ([AmplitudeSmallness, AmplitudeSmoothnessFirstOrder Ox]
                @ (if 1 < dim_m r then [AmplitudeSmoothnessFirstOrder Oy] else [])
                @ (if 2 < dim_m r then [AmplitudeSmoothnessFirstOrder Oz] else [])))
   \<and> vector_amplitude_init (RegularizationMesh r) mp ac allocated
     = vector_amplitude_init (BaseMesh r) mp ac allocated"
  by (simp add: vector_amplitude_init_def Let_def)

text \<open>
  The claim as stated fails for a one-dimensional mesh: the constructor raises nothing
  and allocates the smallness term and the smoothness term along x.
\<close>

theorem vector_amplitude_init_1d_counterexample:
  "map_sum id (map term_class \<circ> objfcts)
     (fst (vector_amplitude_init
        (BaseMesh \<lparr>nC = 3, dim_m = 1, aveCC2F = (\<lambda>k. csr_zeros 0 0)\<rparr>) None None []))
     = Inr [AmplitudeSmallness, AmplitudeSmoothnessFirstOrder Ox]
   \<and> map term_class (snd (vector_amplitude_init
        (BaseMesh \<lparr>nC = 3, dim_m = 1, aveCC2F = (\<lambda>k. csr_zeros 0 0)\<rparr>) None None []))
     = [AmplitudeSmallness, AmplitudeSmoothnessFirstOrder Ox]"
  by (simp add: vector_amplitude_init_def Let_def)

lemma row_norm_upt:
  "row_norm (map g [0..<n]) = sqrt (\<Sum>j<n. g j * g j)"
  by (simp add: row_norm_def comp_def interv_sum_list_conv_sum_set_nat atLeast0LessThan)

text \<open>
  Claim C2. When the reference-shifted model \<open>d\<close> is mapped to a vector \<open>x\<close> of length
  \<open>nC * n_comp\<close>, \<open>amplitude\<close> returns a vector of length \<open>nC\<close> whose entry \<open>i\<close> is the
  Euclidean norm of row \<open>i\<close> of the column-major reshape of \<open>x\<close>, that is of the entries
  \<open>x[j * nC + i]\<close>. With three components of Euclidean length one in every cell the
  result is the all-ones vector; without a reference model the shifted model is the
  model itself.
\<close>

theorem amplitude_row_norms:
  assumes "delta_m (am_reference_model self) m = Inr d"
    and "n_comp (am_mesh self) (am_mapping self) = Inr n"
    and "x = map_apply (am_mapping self) d"
    and "length x = nC (am_mesh self) * n"
  shows "\<exists>a. amplitude self m = Inr a \<and> length a = nC (am_mesh self)
     \<and> a = map (\<lambda>i. sqrt (\<Sum>j<n. x ! (j * nC (am_mesh self) + i) * x ! (j * nC (am_mesh self) + i)))
              [0..<nC (am_mesh self)]
     \<and> (n = 3 \<and> (\<forall>i<nC (am_mesh self).
            sqrt (x ! i * x ! i + x ! (nC (am_mesh self) + i) * x ! (nC (am_mesh self) + i)
                  + x ! (2 * nC (am_mesh self) + i) * x ! (2 * nC (am_mesh self) + i)) = 1)
          \<longrightarrow> a = replicate (nC (am_mesh self)) 1)
     \<and> (am_reference_model self = None \<longrightarrow> d = m)"
proof -
  let ?N = "nC (am_mesh self)"
  let ?a = "map (\<lambda>i. sqrt (\<Sum>j<n. x ! (j * ?N + i) * x ! (j * ?N + i))) [0..<?N]"
  have amp: "amplitude self m = Inr ?a"
    using assms by (simp add: amplitude_def reshape_F_def row_norm_upt comp_def)
  have ones: "?a = replicate ?N 1"
    if "n = 3" and "\<forall>i<?N. sqrt (x ! i * x ! i + x ! (?N + i) * x ! (?N + i)
                  + x ! (2 * ?N + i) * x ! (2 * ?N + i)) = 1"
  proof (rule nth_equalityI)
    show "length ?a = length (replicate ?N (1::real))"
      by simp
  next
    fix i assume "i < length ?a"
    then have i: "i < ?N" by simp
    have "(\<Sum>j<3. x ! (j * ?N + i) * x ! (j * ?N + i))
          = x ! i * x ! i + x ! (?N + i) * x ! (?N + i) + x ! (2 * ?N + i) * x ! (2 * ?N + i)"
      by (simp add: eval_nat_numeral)
    then show "?a ! i = replicate ?N 1 ! i"
      using i that by simp
  qed
  have dm: "d = m" if "am_reference_model self = None"
    using assms(1) that by (simp add: delta_m_def)
  show ?thesis
    using amp ones dm by (intro exI [of _ ?a]) auto
qed

theorem amplitude_row_norms_witness:
  "amplitude
     \<lparr>am_mesh = \<lparr>nC = 2, dim_m = 3, aveCC2F = (\<lambda>k. csr_zeros 0 0)\<rparr>,
      am_mapping = \<lparr>map_shape0 = Some 6, map_apply = (\<lambda>m. m), map_deriv = (\<lambda>m. csr_zeros 0 0)\<rparr>,
      am_weights = [], am_reference_model = None, am_W_cache = None, am_orientation = Ox,
      cell_gradient = csr_zeros 0 0\<rparr>
     [1, 0, 0, 1, 0, 0] = Inr [1, 1]"
proof -
  let ?self = "\<lparr>am_mesh = \<lparr>nC = 2, dim_m = 3, aveCC2F = (\<lambda>k. csr_zeros 0 0)\<rparr>,
      am_mapping = \<lparr>map_shape0 = Some 6, map_apply = (\<lambda>m. m), map_deriv = (\<lambda>m. csr_zeros 0 0)\<rparr>,
      am_weights = [], am_reference_model = None, am_W_cache = None, am_orientation = Ox,
      cell_gradient = csr_zeros 0 0\<rparr>"
  let ?m = "[1, 0, 0, 1, 0, 0] :: real list"
  have h1: "delta_m (am_reference_model ?self) ?m = Inr ?m"
    by (simp add: delta_m_def)
  have h2: "n_comp (am_mesh ?self) (am_mapping ?self) = Inr 3"
    by (simp add: n_comp_def)
  have h3: "?m = map_apply (am_mapping ?self) ?m"
    by simp
  have h4: "length ?m = nC (am_mesh ?self) * 3"
    by simp
  obtain a where a: "amplitude ?self ?m = Inr a"
    and ones: "3 = (3::nat) \<and> (\<forall>i<nC (am_mesh ?self).
            sqrt (?m ! i * ?m ! i + ?m ! (nC (am_mesh ?self) + i) * ?m ! (nC (am_mesh ?self) + i)
                  + ?m ! (2 * nC (am_mesh ?self) + i) * ?m ! (2 * nC (am_mesh ?self) + i)) = 1)
          \<longrightarrow> a = replicate (nC (am_mesh ?self)) 1"
    using amplitude_row_norms [OF h1 h2 h3 h4] by blast
  have "\<forall>i<nC (am_mesh ?self).
            sqrt (?m ! i * ?m ! i + ?m ! (nC (am_mesh ?self) + i) * ?m ! (nC (am_mesh ?self) + i)
                  + ?m ! (2 * nC (am_mesh ?self) + i) * ?m ! (2 * nC (am_mesh ?self) + i)) = 1"
    by (simp add: less_Suc_eq eval_nat_numeral)
  with ones have "a = replicate (nC (am_mesh ?self)) 1"
    by blast
  then have "a = [1, 1]"
    by (simp add: eval_nat_numeral)
  with a show ?thesis
    by simp
qed

lemma matvec_matmul:
  assumes "ncols A = nrows B"
  shows "matvec (matmul A B) v = matvec A (matvec B v)"
proof (rule nth_equalityI)
  show "length (matvec (matmul A B) v) = length (matvec A (matvec B v))"
    by simp
next
  fix i assume "i < length (matvec (matmul A B) v)"
  then have i: "i < nrows A" by simp
  have "(\<Sum>k<ncols B. (\<Sum>j<ncols A. entry A i j * entry B j k) * v ! k)
        = (\<Sum>k<ncols B. \<Sum>j<ncols A. entry A i j * (entry B j k * v ! k))"
    by (simp add: sum_distrib_right mult.assoc)
  also have "\<dots> = (\<Sum>j<ncols A. \<Sum>k<ncols B. entry A i j * (entry B j k * v ! k))"
    by (rule sum.swap)
  also have "\<dots> = (\<Sum>j<ncols A. entry A i j * (\<Sum>k<ncols B. entry B j k * v ! k))"
    by (simp add: sum_distrib_left)
  also have "\<dots> = (\<Sum>j<ncols A. entry A i j * matvec B v ! j)"
    using assms by (intro sum.cong) (simp_all add: matvec_nth)
  finally show "matvec (matmul A B) v ! i = matvec A (matvec B v) ! i"
    using i by (simp add: matvec_nth matmul_def)
qed

lemma block_diag_dims [simp]:
  "nrows (sp_block_diag (replicate n M)) = n * nrows M"
  "ncols (sp_block_diag (replicate n M)) = n * ncols M"
  by (induction n) (simp_all add: csr_zeros_def Let_def)

lemma matvec_block_diag_Cons:
  assumes "length u = ncols A"
  shows "matvec (sp_block_diag (A # As)) (u @ w) = matvec A u @ matvec (sp_block_diag As) w"
proof (rule nth_equalityI)
  show "length (matvec (sp_block_diag (A # As)) (u @ w))
        = length (matvec A u @ matvec (sp_block_diag As) w)"
    by (simp add: Let_def)
next
  fix i assume "i < length (matvec (sp_block_diag (A # As)) (u @ w))"
  then have i: "i < nrows A + nrows (sp_block_diag As)"
    by (simp add: Let_def)
  show "matvec (sp_block_diag (A # As)) (u @ w) ! i
        = (matvec A u @ matvec (sp_block_diag As) w) ! i"
  proof (cases "i < nrows A")
    case True
    then show ?thesis
      using i assms
      by (simp add: matvec_def Let_def sum_lessThan_add nth_append)
  next
    case False
    then show ?thesis
      using i assms
      by (simp add: matvec_def Let_def sum_lessThan_add nth_append)
  qed
qed

lemma matvec_block_diag_replicate:
  assumes "length y = n * ncols M"
  shows "matvec (sp_block_diag (replicate n M)) y
         = concat (map (\<lambda>k. matvec M (take (ncols M) (drop (k * ncols M) y))) [0..<n])"
  using assms
proof (induction n arbitrary: y)
  case 0
  then show ?case by (simp add: matvec_def csr_zeros_def)
next
  case (Suc n)
  let ?c = "ncols M"
  have len: "length (take ?c y) = ?c" "length (drop ?c y) = n * ?c"
    using Suc.prems by simp_all
  have "matvec (sp_block_diag (replicate (Suc n) M)) (take ?c y @ drop ?c y)
        = matvec M (take ?c y) @ matvec (sp_block_diag (replicate n M)) (drop ?c y)"
    using len(1) by (simp only: replicate_Suc matvec_block_diag_Cons)
  also have "matvec (sp_block_diag (replicate n M)) (drop ?c y)
        = concat (map (\<lambda>k. matvec M (take ?c (drop (k * ?c) (drop ?c y)))) [0..<n])"
    by (rule Suc.IH [OF len(2)])
  also have "(\<lambda>k. matvec M (take ?c (drop (k * ?c) (drop ?c y))))
        = (\<lambda>k. matvec M (take ?c (drop (Suc k * ?c) y)))"
    by (simp add: add.commute)
  finally show ?case
    by (simp add: map_upt_Suc del: upt_Suc replicate_Suc)
qed

lemma ravel_matdense_reshape:
  assumes "length y = n * ncols A" "nrows A = ncols A"
  shows "ravel_F (Arr2 (nrows A) n
           (matdense A (map (\<lambda>i. map (\<lambda>j. y ! (j * ncols A + i)) [0..<n]) [0..<ncols A]) n))
         = concat (map (\<lambda>k. matvec A (take (ncols A) (drop (k * ncols A) y))) [0..<n])"
proof -
  have col: "map (\<lambda>row. row ! k)
          (matdense A (map (\<lambda>i. map (\<lambda>j. y ! (j * ncols A + i)) [0..<n]) [0..<ncols A]) n)
        = matvec A (take (ncols A) (drop (k * ncols A) y))" if "k < n" for k
  proof (rule nth_equalityI)
    show "length (map (\<lambda>row. row ! k)
          (matdense A (map (\<lambda>i. map (\<lambda>j. y ! (j * ncols A + i)) [0..<n]) [0..<ncols A]) n))
        = length (matvec A (take (ncols A) (drop (k * ncols A) y)))"
      by (simp add: matdense_def)
  next
    fix i assume "i < length (map (\<lambda>row. row ! k)
          (matdense A (map (\<lambda>i. map (\<lambda>j. y ! (j * ncols A + i)) [0..<n]) [0..<ncols A]) n))"
    then have i: "i < nrows A"
      by (simp add: matdense_def)
    have "k * ncols A + ncols A \<le> n * ncols A"
      using that by (metis Suc_leI mult_Suc mult_le_mono1 add.commute)
    then have "k * ncols A \<le> length y"
      using assms(1) that by simp
    then have "(\<Sum>j<ncols A. entry A i j * y ! (k * ncols A + j))
        = (\<Sum>j<ncols A. entry A i j * take (ncols A) (drop (k * ncols A) y) ! j)"
      by (intro sum.cong) simp_all
    then show "map (\<lambda>row. row ! k)
          (matdense A (map (\<lambda>i. map (\<lambda>j. y ! (j * ncols A + i)) [0..<n]) [0..<ncols A]) n) ! i
        = matvec A (take (ncols A) (drop (k * ncols A) y)) ! i"
      using i that by (simp add: matdense_def matvec_def)
  qed
  have "map (\<lambda>k. map (\<lambda>row. row ! k)
          (matdense A (map (\<lambda>i. map (\<lambda>j. y ! (j * ncols A + i)) [0..<n]) [0..<ncols A]) n))
          [0..<n]
        = map (\<lambda>k. matvec A (take (ncols A) (drop (k * ncols A) y))) [0..<n]"
    by (intro map_cong refl) (simp add: col)
  then show ?thesis
    unfolding ravel_F.simps by (rule arg_cong [of _ _ concat])
qed


lemma reshape_F_auto_vec:
  assumes "0 < n" "length y = n * c"
  shows "reshape_F_auto (Arr1 y) n
         = Inr (Arr2 c n (map (\<lambda>i. map (\<lambda>j. y ! (j * c + i)) [0..<n]) [0..<c]))"
  using assms by (simp add: reshape_F_auto_def reshape_F_def)

lemma matrix_free_product:
  assumes "0 < n" "nrows J = n * ncols W" "length v = ncols J"
  shows "deriv J W n v
         = Inr (matvec (sp_transpose J)
             (matvec (sp_block_diag (replicate n (matmul (sp_transpose W) W))) (matvec J v)))"
proof -
  let ?A = "matmul (sp_transpose W) W"
  let ?y = "matvec J v"
  have y: "length ?y = n * ncols ?A"
    using assms(2) by simp
  have sq: "nrows ?A = ncols ?A"
    by simp
  have r: "reshape_F_auto (Arr1 ?y) n
         = Inr (Arr2 (ncols ?A) n
             (map (\<lambda>i. map (\<lambda>j. ?y ! (j * ncols ?A + i)) [0..<n]) [0..<ncols ?A]))"
    by (rule reshape_F_auto_vec [OF assms(1) y])
  have rv: "ravel_F (Arr2 (nrows ?A) n
           (matdense ?A (map (\<lambda>i. map (\<lambda>j. ?y ! (j * ncols ?A + i)) [0..<n]) [0..<ncols ?A]) n))
         = matvec (sp_block_diag (replicate n ?A)) ?y"
    by (simp only: ravel_matdense_reshape [OF y sq] matvec_block_diag_replicate [OF y])
  have a: "sp_matvec J v = Inr ?y"
    using assms(3) by (simp add: sp_matvec_def)
  have b: "sp_matmul (sp_transpose W) W = Inr ?A"
    by (simp add: sp_matmul_def)
  have c: "sp_dot ?A (Arr2 (ncols ?A) n
             (map (\<lambda>i. map (\<lambda>j. ?y ! (j * ncols ?A + i)) [0..<n]) [0..<ncols ?A]))
         = Inr (Arr2 (nrows ?A) n
           (matdense ?A (map (\<lambda>i. map (\<lambda>j. ?y ! (j * ncols ?A + i)) [0..<n]) [0..<ncols ?A]) n))"
    by simp
  have d: "sp_matvec (sp_transpose J) (matvec (sp_block_diag (replicate n ?A)) ?y)
         = Inr (matvec (sp_transpose J) (matvec (sp_block_diag (replicate n ?A)) ?y))"
    using assms(2) by (simp add: sp_matvec_def)
  show ?thesis
    unfolding deriv_def
    by (simp only: a b r c rv d sum.case)
qed

lemma deriv2_vec_eq_deriv:
  "deriv2 J W n (Some v) = map_sum id HessVec (deriv J W n v)"
  by (simp add: deriv2_def deriv_def split: sum.splits)

text \<open>
  Claim C3. For a kernel derivative \<open>J\<close> with \<open>n_comp\<close> times as many rows as the
  weighting matrix \<open>W\<close> has columns and a vector \<open>v\<close> of matching length, \<open>deriv2\<close> without
  a vector returns a square matrix, and that matrix multiplied by \<open>v\<close> is the vector
  that \<open>deriv2\<close> returns when it is given \<open>v\<close>. \<open>W\<close> is arbitrary, so the statement
  covers the weighting matrices of the smallness and of the smoothness term.
\<close>

theorem deriv2_matrix_path_agrees_with_matrix_free:
  assumes "0 < n" and "nrows J = n * ncols W" and "length v = ncols J"
  shows "\<exists>H g. deriv2 J W n None = Inr (HessMat H)
           \<and> nrows H = ncols J \<and> ncols H = ncols J
           \<and> sp_matvec H v = Inr g
           \<and> deriv2 J W n (Some v) = Inr (HessVec g)"
proof -
  let ?A = "matmul (sp_transpose W) W"
  let ?BD = "sp_block_diag (replicate n ?A)"
  let ?H = "matmul (sp_transpose J) (matmul ?BD J)"
  have full: "deriv2 J W n None = Inr (HessMat ?H)"
    using assms(2) by (simp add: deriv2_def sp_matmul_def)
  have "matvec ?H v = matvec (sp_transpose J) (matvec (matmul ?BD J) v)"
    using assms(2) by (intro matvec_matmul) simp
  also have "matvec (matmul ?BD J) v = matvec ?BD (matvec J v)"
    using assms(2) by (intro matvec_matmul) simp
  finally have prod: "sp_matvec ?H v
      = Inr (matvec (sp_transpose J) (matvec ?BD (matvec J v)))"
    using assms(3) by (simp add: sp_matvec_def)
  have free: "deriv2 J W n (Some v)
      = Inr (HessVec (matvec (sp_transpose J) (matvec ?BD (matvec J v))))"
    by (simp add: deriv2_vec_eq_deriv matrix_free_product [OF assms])
  show ?thesis
    using full prod free by (intro exI [of _ ?H] exI [of _ "matvec (sp_transpose J) (matvec ?BD (matvec J v))"]) simp
qed


theorem deriv2_matrix_path_agrees_with_matrix_free_witness:
  "\<exists>H. deriv2 (sp_diags [1, 1]) (sp_diags [2]) 2 None = Inr (HessMat H)
       \<and> sp_matvec H [3, 5] = Inr [12, 20]
       \<and> deriv2 (sp_diags [1, 1]) (sp_diags [2]) 2 (Some [3, 5]) = Inr (HessVec [12, 20])"
proof -
  have h1: "(0::nat) < 2" by simp
  have h2: "nrows (sp_diags [1, 1]) = 2 * ncols (sp_diags [2])" by simp
  have h3: "length [3, 5 :: real] = ncols (sp_diags [1, 1])" by simp
  obtain H g where H: "deriv2 (sp_diags [1, 1]) (sp_diags [2]) 2 None = Inr (HessMat H)"
    and g: "sp_matvec H [3, 5] = Inr g"
    and v: "deriv2 (sp_diags [1, 1]) (sp_diags [2]) 2 (Some [3, 5]) = Inr (HessVec g)"
    using deriv2_matrix_path_agrees_with_matrix_free [OF h1 h2 h3] by blast
  have "deriv2 (sp_diags [1, 1]) (sp_diags [2]) 2 (Some [3, 5]) = Inr (HessVec [12, 20])"
    by (simp add: deriv2_def sp_matvec_def sp_matmul_def reshape_F_auto_def reshape_F_def
        matvec_def matmul_def matdense_def sp_transpose_def sp_diags_def upt_conv_Cons
        lessThan_Suc eval_nat_numeral)
  with v have "g = [12, 20]" by simp
  with H g v show ?thesis by blast
qed

lemma matvec_zero_vector: "matvec A (replicate (ncols A) 0) = replicate (nrows A) 0"
  by (intro nth_equalityI) (simp_all add: matvec_def)

lemma matvec_identity:
  assumes "length u = L"
  shows "matvec (sp_diags (replicate L 1)) u = u"
  using assms by (intro nth_equalityI) (simp_all add: matvec_diags)

lemma matvec_transpose_diags: "matvec (sp_transpose (sp_diags c)) u = matvec (sp_diags c) u"
proof -
  have "(if j = i \<and> j < length c then c ! j else 0) = (if i = j \<and> i < length c then c ! i else 0)"
    for i j :: nat
    by auto
  then show ?thesis
    by (simp add: matvec_def sp_transpose_def sp_diags_def)
qed

lemma length_concat_chunks:
  assumes "\<forall>k<n. length (f k) = N"
  shows "length (concat (map f [0..<n])) = n * N"
  using assms by (induction n) simp_all

lemma nth_concat_chunks:
  assumes "\<forall>k<n. length (f k) = N" "j < n" "i < N"
  shows "concat (map f [0..<n]) ! (j * N + i) = f j ! i"
  using assms
proof (induction n)
  case 0
  then show ?case by simp
next
  case (Suc n)
  have len: "length (concat (map f [0..<n])) = n * N"
    using Suc.prems(1) by (intro length_concat_chunks) simp
  show ?case
  proof (cases "j < n")
    case True
    then have "j * N + N \<le> n * N"
      by (metis Suc_leI mult_Suc mult_le_mono1 add.commute)
    then have "j * N + i < n * N"
      using Suc.prems(3) by simp
    then show ?thesis
      using Suc True len by (simp add: nth_append)
  next
    case False
    then have "j = n" using Suc.prems(2) by simp
    then show ?thesis
      using len by (simp add: nth_append)
  qed
qed

lemma diag_gram_offdiag:
  assumes "i \<noteq> l"
  shows "entry (matmul (sp_transpose (sp_diags w)) (sp_diags w)) i l = 0"
  using assms by (auto simp add: matmul_def sp_transpose_def sp_diags_def intro!: sum.neutral)

lemma identity_diag_gradient_entry:
  assumes "0 < n" "length d = n * length w" "j < n" "i < length w" "d ! (j * length w + i) = 0"
  shows "matvec (sp_transpose (sp_diags (replicate (n * length w) 1)))
           (matvec (sp_block_diag (replicate n (matmul (sp_transpose (sp_diags w)) (sp_diags w))))
              (matvec (sp_diags (replicate (n * length w) 1)) d)) ! (j * length w + i) = 0"
proof -
  let ?N = "length w"
  let ?A = "matmul (sp_transpose (sp_diags w)) (sp_diags w)"
  let ?f = "\<lambda>k. matvec ?A (take ?N (drop (k * ?N) d))"
  have nc: "ncols ?A = ?N" "nrows ?A = ?N"
    by simp_all
  have bd: "matvec (sp_block_diag (replicate n ?A)) d = concat (map ?f [0..<n])"
    using matvec_block_diag_replicate [of d n ?A] assms(2) by (simp only: nc)
  have lenbd: "length (concat (map ?f [0..<n])) = n * ?N"
    by (intro length_concat_chunks) simp
  have "j * ?N + ?N \<le> n * ?N"
    using assms(3) by (metis Suc_leI mult_Suc mult_le_mono1 add.commute)
  then have bound: "j * ?N \<le> length d" "j * ?N + ?N \<le> length d"
    using assms(2,3) by simp_all
  have term0: "entry ?A i l * take ?N (drop (j * ?N) d) ! l = 0" if "l < ?N" for l
  proof (cases "l = i")
    case True
    then show ?thesis
      using assms(5) bound that by simp
  next
    case False
    then show ?thesis
      using diag_gram_offdiag [of i l w] by simp
  qed
  have "?f j ! i = (\<Sum>l<?N. entry ?A i l * take ?N (drop (j * ?N) d) ! l)"
    using assms(4) by (simp add: matvec_nth)
  also have "\<dots> = 0"
  proof (rule sum.neutral, rule ballI)
    fix l assume "l \<in> {..<?N}"
    then have "l < ?N" by simp
    then show "entry ?A i l * take ?N (drop (j * ?N) d) ! l = 0"
      by (rule term0)
  qed
  finally have fj: "?f j ! i = 0" .
  have "concat (map ?f [0..<n]) ! (j * ?N + i) = ?f j ! i"
    using assms(3,4) by (intro nth_concat_chunks) simp_all
  with fj have z: "concat (map ?f [0..<n]) ! (j * ?N + i) = 0"
    by simp
  have "matvec (sp_transpose (sp_diags (replicate (n * ?N) 1)))
           (matvec (sp_block_diag (replicate n ?A))
              (matvec (sp_diags (replicate (n * ?N) 1)) d))
        = concat (map ?f [0..<n])"
    using assms(2) lenbd
    by (simp only: matvec_identity matvec_transpose_diags bd)
  with z show ?thesis
    by simp
qed

text \<open>
  Claim C4. \<open>deriv\<close> contains no division: for a kernel derivative \<open>J\<close>, a weighting
  matrix \<open>W\<close> and a shifted model \<open>d\<close> of matching shapes it raises nothing, whatever
  the amplitudes are, and returns the vector of length \<open>ncols J\<close> obtained from \<open>d\<close> by
  sums and products only. A model that vanishes everywhere has the zero vector as its
  derivative; and for the identity mapping and a diagonal \<open>W\<close>, in a cell whose
  amplitude is zero every component of the derivative is zero.
\<close>

theorem deriv_defined_at_zero_amplitude:
  assumes "0 < n" and "nrows J = n * ncols W" and "length d = ncols J"
  shows "\<exists>g. deriv J W n d = Inr g \<and> length g = ncols J
     \<and> g = matvec (sp_transpose J)
             (matvec (sp_block_diag (replicate n (matmul (sp_transpose W) W))) (matvec J d))
     \<and> (d = replicate (ncols J) 0 \<longrightarrow> g = replicate (ncols J) 0)
     \<and> (\<forall>w. W = sp_diags w \<and> J = sp_diags (replicate (n * length w) 1) \<longrightarrow>
          (\<forall>i<length w. sqrt (\<Sum>j<n. d ! (j * length w + i) * d ! (j * length w + i)) = 0 \<longrightarrow>
             (\<forall>j<n. g ! (j * length w + i) = 0)))"
proof -
  let ?BD = "sp_block_diag (replicate n (matmul (sp_transpose W) W))"
  let ?g = "matvec (sp_transpose J) (matvec ?BD (matvec J d))"
  have val: "deriv J W n d = Inr ?g"
    by (rule matrix_free_product [OF assms])
  have len: "length ?g = ncols J"
    by simp
  have zero: "?g = replicate (ncols J) 0" if "d = replicate (ncols J) 0"
  proof -
    have "matvec J d = replicate (nrows J) 0"
      using that by (simp add: matvec_zero_vector)
    then have "matvec ?BD (matvec J d) = replicate (nrows ?BD) 0"
      using assms(2) matvec_zero_vector [of ?BD] by simp
    then have "?g = replicate (nrows (sp_transpose J)) 0"
      using assms(2) matvec_zero_vector [of "sp_transpose J"] by simp
    then show ?thesis by simp
  qed
  have cell: "?g ! (j * length w + i) = 0"
    if "W = sp_diags w" "J = sp_diags (replicate (n * length w) 1)" "i < length w"
      "sqrt (\<Sum>j<n. d ! (j * length w + i) * d ! (j * length w + i)) = 0" "j < n"
    for w i j
  proof -
    have "(\<Sum>j<n. d ! (j * length w + i) * d ! (j * length w + i)) = 0"
      using that(4) by simp
    then have "\<forall>j\<in>{..<n}. d ! (j * length w + i) * d ! (j * length w + i) = 0"
      by (subst (asm) sum_nonneg_eq_0_iff) simp_all
    then have dz: "d ! (j * length w + i) = 0"
      using that(5) by simp
    have ld: "length d = n * length w"
      using assms(3) that(2) by simp
    show ?thesis
      unfolding that(1,2)
      by (rule identity_diag_gradient_entry [OF assms(1) ld that(5) that(3) dz])
  qed
  show ?thesis
    using val len zero cell by (intro exI [of _ ?g]) blast
qed

theorem deriv_defined_at_zero_amplitude_witness:
  "deriv (sp_diags [1, 1, 1, 1]) (sp_diags [3, 2]) 2 [0, 1, 0, 5] = Inr [0, 4, 0, 20]"
proof -
  have h1: "(0::nat) < 2" by simp
  have h2: "nrows (sp_diags [1, 1, 1, 1]) = 2 * ncols (sp_diags [3, 2])" by simp
  have h3: "length [0, 1, 0, 5 :: real] = ncols (sp_diags [1, 1, 1, 1])" by simp
  obtain g where g: "deriv (sp_diags [1, 1, 1, 1]) (sp_diags [3, 2]) 2 [0, 1, 0, 5] = Inr g"
    and cf: "g = matvec (sp_transpose (sp_diags [1, 1, 1, 1]))
             (matvec (sp_block_diag (replicate 2 (matmul (sp_transpose (sp_diags [3, 2]))
                (sp_diags [3, 2])))) (matvec (sp_diags [1, 1, 1, 1]) [0, 1, 0, 5]))"
    using deriv_defined_at_zero_amplitude [OF h1 h2 h3] by blast
  have "g = [0, 4, 0, 20]"
    unfolding cf
    by (simp add: matvec_def matmul_def sp_transpose_def sp_diags_def csr_zeros_def
        upt_conv_Cons lessThan_Suc eval_nat_numeral)
  with g show ?thesis by simp
qed

lemma ravel_F_nth:
  assumes "length rows = r" "i < r" "j < c"
  shows "ravel_F (Arr2 r c rows) ! (j * r + i) = rows ! i ! j"
proof -
  have "concat (map (\<lambda>j. map (\<lambda>row. row ! j) rows) [0..<c]) ! (j * r + i)
        = map (\<lambda>row. row ! j) rows ! i"
    using assms by (intro nth_concat_chunks) simp_all
  then show ?thesis
    using assms by simp
qed

lemma map2_mult_upt:
  assumes "length w = n" "length v = n"
  shows "map2 (*) w v = map (\<lambda>i. w ! i * v ! i) [0..<n]"
  using assms by (intro nth_equalityI) simp_all

lemma map2_mult_map_upt:
  assumes "length w = n"
  shows "map2 (*) w (map f [0..<n]) = map (\<lambda>i. w ! i * f i) [0..<n]"
  using assms by (intro nth_equalityI) simp_all

lemma cross_reference_weights_closed:
  assumes "length w = n"
    and "list_all (\<lambda>a. wf_ndarray a \<and> (shape a = [n] \<or> shape a = [d * n] \<or> shape a = [n, d])) ws"
  shows "cross_reference_weights n d ws w
         = Inr (map (\<lambda>i. w ! i * prod_list (map (\<lambda>a. reduced_weight n d a i) ws)) [0..<n])"
  using assms
proof (induction ws arbitrary: w)
  case Nil
  then show ?case
    by (auto intro: nth_equalityI)
next
  case (Cons a ws)
  have rest: "list_all (\<lambda>a. wf_ndarray a \<and> (shape a = [n] \<or> shape a = [d * n] \<or> shape a = [n, d])) ws"
    using Cons.prems(2) by simp
  have step: "cross_reference_weights n d (a # ws) w
        = cross_reference_weights n d ws (map (\<lambda>i. w ! i * reduced_weight n d a i) [0..<n])"
  proof (cases a)
    case (Arr1 v)
    show ?thesis
    proof (cases "length v = n")
      case True
      then show ?thesis
        using Arr1 Cons.prems(1) by (simp add: map2_mult_upt)
    next
      case False
      then have len: "length v = d * n"
        using Arr1 Cons.prems(2) by simp
      have "length (map (\<lambda>i. sqrt (\<Sum>j<d. v ! (j * n + i) * v ! (j * n + i))) [0..<n]) = n"
        by simp
      then show ?thesis
        using Arr1 False len Cons.prems(1)
        by (simp add: reshape_F_def mult.commute map2_mult_map_upt row_norm_upt comp_def)
    qed
  next
    case (Arr2 r c rows)
    then have rc: "r = n" "c = d" "length rows = n"
      using Cons.prems(2) by simp_all
    have eq: "map (\<lambda>i. w ! i * sqrt (\<Sum>j<d. ravel_F (Arr2 n d rows) ! (j * n + i)
                                   * ravel_F (Arr2 n d rows) ! (j * n + i))) [0..<n]
        = map (\<lambda>i. w ! i * sqrt (\<Sum>j<d. rows ! i ! j * rows ! i ! j)) [0..<n]"
    proof (intro map_cong refl)
      fix i assume "i \<in> set [0..<n]"
      then have i: "i < n" by simp
      have "(\<Sum>j<d. ravel_F (Arr2 n d rows) ! (j * n + i) * ravel_F (Arr2 n d rows) ! (j * n + i))
          = (\<Sum>j<d. rows ! i ! j * rows ! i ! j)"
        using rc(3) i by (intro sum.cong) (simp_all add: ravel_F_nth del: ravel_F.simps)
      then show "w ! i * sqrt (\<Sum>j<d. ravel_F (Arr2 n d rows) ! (j * n + i)
                                   * ravel_F (Arr2 n d rows) ! (j * n + i))
          = w ! i * sqrt (\<Sum>j<d. rows ! i ! j * rows ! i ! j)"
        by simp
    qed
    have st: "cross_reference_weights n d (a # ws) w
        = cross_reference_weights n d ws
            (map (\<lambda>i. w ! i * sqrt (\<Sum>j<d. ravel_F (Arr2 n d rows) ! (j * n + i)
                                   * ravel_F (Arr2 n d rows) ! (j * n + i))) [0..<n])"
      using Arr2 rc Cons.prems(1)
      by (simp add: reshape_F_def mult.commute map2_mult_map_upt row_norm_upt comp_def
          del: ravel_F.simps)
    show ?thesis
      by (simp only: st [unfolded Arr2] eq Arr2 reduced_weight.simps)
  qed
  have "cross_reference_weights n d ws (map (\<lambda>i. w ! i * reduced_weight n d a i) [0..<n])
        = Inr (map (\<lambda>i. map (\<lambda>i. w ! i * reduced_weight n d a i) [0..<n] ! i
                         * prod_list (map (\<lambda>a. reduced_weight n d a i) ws)) [0..<n])"
    by (rule Cons.IH [OF _ rest]) simp
  also have "map (\<lambda>i. map (\<lambda>i. w ! i * reduced_weight n d a i) [0..<n] ! i
                         * prod_list (map (\<lambda>a. reduced_weight n d a i) ws)) [0..<n]
        = map (\<lambda>i. w ! i * prod_list (map (\<lambda>a. reduced_weight n d a i) (a # ws))) [0..<n]"
    by (intro map_cong refl) (simp add: mult.assoc)
  finally show ?case
    using step by simp
qed


lemma reduced_weight_nonneg:
  assumes "list_all (\<lambda>x. 0 \<le> x) (ravel_F a)" "shape a = [n] \<or> shape a = [d * n] \<or> shape a = [n, d]"
    "i < n"
  shows "0 \<le> reduced_weight n d a i"
  using assms by (cases a) (auto simp add: list_all_length intro!: sum_nonneg)


text \<open>
  Claim C6. With an empty cache, on a mesh of dimension two or three whose registered
  weights have the accepted shapes and no negative entry, \<open>W\<close> of the cross-reference
  regularization is the diagonal matrix of the square roots of the products, cell by
  cell, of the registered weights, a weight given per component being reduced to its
  Euclidean norm across the components first. The diagonal of length \<open>nC\<close> is used as
  it is in two dimensions and three times in a row in three dimensions; it has no
  negative entry, and the matrix is cached.
\<close>

theorem cross_reference_W_diagonal:
  assumes "W_cache self = None"
    and "nC (regularization_mesh self) = n" and "dim_m (regularization_mesh self) = d"
    and "d = 2 \<or> d = 3"
    and "list_all (\<lambda>a. wf_ndarray a \<and> (shape a = [n] \<or> shape a = [d * n] \<or> shape a = [n, d]))
           (map snd (cr_weights self))"
    and "list_all (\<lambda>a. list_all (\<lambda>x. 0 \<le> x) (ravel_F a)) (map snd (cr_weights self))"
  shows "\<exists>W diagv. cross_reference_W self = (Inr W, self\<lparr>W_cache := Some W\<rparr>)
     \<and> diagv = map (\<lambda>i. sqrt (prod_list (map (\<lambda>a. reduced_weight n d a i)
                                             (map snd (cr_weights self))))) [0..<n]
     \<and> (d = 2 \<longrightarrow> W = sp_diags diagv)
     \<and> (d = 3 \<longrightarrow> W = sp_diags (diagv @ diagv @ diagv))
     \<and> (\<forall>i<n. 0 \<le> diagv ! i)
     \<and> cross_reference_W (self\<lparr>W_cache := Some W\<rparr>) = (Inr W, self\<lparr>W_cache := Some W\<rparr>)"
proof -
  let ?ws = "map snd (cr_weights self)"
  let ?dv = "map (\<lambda>i. sqrt (prod_list (map (\<lambda>a. reduced_weight n d a i) ?ws))) [0..<n]"
  let ?W = "sp_diags (if d = 2 then ?dv else ?dv @ ?dv @ ?dv)"
  have loop: "cross_reference_weights n d ?ws (replicate n 1)
        = Inr (map (\<lambda>i. replicate n 1 ! i * prod_list (map (\<lambda>a. reduced_weight n d a i) ?ws))
                 [0..<n])"
    by (rule cross_reference_weights_closed [OF _ assms(5)]) simp
  have "map (\<lambda>i. replicate n (1::real) ! i * prod_list (map (\<lambda>a. reduced_weight n d a i) ?ws))
                 [0..<n]
        = map (\<lambda>i. prod_list (map (\<lambda>a. reduced_weight n d a i) ?ws)) [0..<n]"
    by (intro map_cong refl) simp
  with loop have loop': "cross_reference_weights n d ?ws (replicate n 1)
        = Inr (map (\<lambda>i. prod_list (map (\<lambda>a. reduced_weight n d a i) ?ws)) [0..<n])"
    by simp
  have val: "cross_reference_W self = (Inr ?W, self\<lparr>W_cache := Some ?W\<rparr>)"
    using assms(1,2,3) loop'
    by (simp add: cross_reference_W_def Let_def comp_def)
  have again: "cross_reference_W (self\<lparr>W_cache := Some ?W\<rparr>)
        = (Inr ?W, self\<lparr>W_cache := Some ?W\<rparr>)"
    by (simp add: cross_reference_W_def)
  have nonneg: "0 \<le> ?dv ! i" if "i < n" for i
  proof -
    have "0 \<le> prod_list (map (\<lambda>a. reduced_weight n d a i) ?ws)"
    proof (rule prod_list_nonneg)
      fix x assume "x \<in> set (map (\<lambda>a. reduced_weight n d a i) ?ws)"
      then obtain a where a: "a \<in> set ?ws" and x: "x = reduced_weight n d a i"
        by auto
      have "list_all (\<lambda>x. 0 \<le> x) (ravel_F a)"
        using assms(6) a by (auto simp add: list_all_iff)
      moreover have "shape a = [n] \<or> shape a = [d * n] \<or> shape a = [n, d]"
        using assms(5) a by (auto simp add: list_all_iff)
      ultimately show "0 \<le> x"
        unfolding x using that by (rule reduced_weight_nonneg)
    qed
    then show ?thesis
      using that by simp
  qed
  from assms(4) show ?thesis
  proof
    assume "d = 2"
    then show ?thesis
      using val again nonneg by (intro exI [of _ ?W] exI [of _ ?dv]) simp
  next
    assume "d = 3"
    then show ?thesis
      using val again nonneg by (intro exI [of _ ?W] exI [of _ ?dv]) simp
  qed
qed

theorem cross_reference_W_diagonal_witness:
  "fst (cross_reference_W
     \<lparr>regularization_mesh = \<lparr>nC = 2, dim_m = 2, aveCC2F = (\<lambda>k. csr_zeros 0 0)\<rparr>,
      cr_mapping = \<lparr>map_shape0 = None, map_apply = (\<lambda>m. m), map_deriv = (\<lambda>m. csr_zeros 0 0)\<rparr>,
      cr_weights = [(''volume'', Arr1 [5, 9]), (''vector'', Arr2 2 2 [[3, 4], [0, 1]])],
      ref_dir = None, X_op = None, W_cache = None, reference_model = None\<rparr>)
   = Inr (sp_diags [5, 3])"
proof -
  let ?self = "\<lparr>regularization_mesh = \<lparr>nC = 2, dim_m = 2, aveCC2F = (\<lambda>k. csr_zeros 0 0)\<rparr>,
      cr_mapping = \<lparr>map_shape0 = None, map_apply = (\<lambda>m. m), map_deriv = (\<lambda>m. csr_zeros 0 0)\<rparr>,
      cr_weights = [(''volume'', Arr1 [5, 9]), (''vector'', Arr2 2 2 [[3, 4], [0, 1]])],
      ref_dir = None, X_op = None, W_cache = None, reference_model = None\<rparr>"
  have h1: "W_cache ?self = None" by simp
  have h2: "nC (regularization_mesh ?self) = 2" by simp
  have h3: "dim_m (regularization_mesh ?self) = 2" by simp
  have h4: "(2::nat) = 2 \<or> (2::nat) = 3" by simp
  have h5: "list_all (\<lambda>a. wf_ndarray a \<and> (shape a = [2] \<or> shape a = [2 * 2] \<or> shape a = [2, 2]))
           (map snd (cr_weights ?self))"
    by simp
  have h6: "list_all (\<lambda>a. list_all (\<lambda>x. 0 \<le> x) (ravel_F a)) (map snd (cr_weights ?self))"
    by (simp add: upt_conv_Cons)
  obtain W diagv where W: "cross_reference_W ?self = (Inr W, ?self\<lparr>W_cache := Some W\<rparr>)"
    and dv: "diagv = map (\<lambda>i. sqrt (prod_list (map (\<lambda>a. reduced_weight 2 2 a i)
                                             (map snd (cr_weights ?self))))) [0..<2]"
    and W2: "(2::nat) = 2 \<longrightarrow> W = sp_diags diagv"
    using cross_reference_W_diagonal [OF h1 h2 h3 h4 h5 h6] by blast
  have "diagv = [5, 3]"
    unfolding dv by (simp add: upt_conv_Cons lessThan_Suc eval_nat_numeral)
  with W W2 show ?thesis
    by simp
qed

text \<open>
  Claim C5 at a failing input: one cell, dimension two. With the all-ones weights of
  shapes \<open>(nC,)\<close> and \<open>(nC, dim)\<close> registered next to the default weight, the weighting
  matrix of the cross-reference regularization has the entry \<open>sqrt (sqrt 2)\<close>, and
  without them the entry \<open>1\<close>. With the all-ones weights of shapes \<open>(nC,)\<close> and
  \<open>(n_comp * nC,)\<close> the same holds for the amplitude smallness term. All three shapes
  are among the accepted ones.
\<close>

theorem unit_weights_change_W:
  "[1] \<in> set (weights_shapes \<lparr>nC = 1, dim_m = 2, aveCC2F = (\<lambda>k. csr_zeros 0 0)\<rparr> 2)
   \<and> [1, 2] \<in> set (weights_shapes \<lparr>nC = 1, dim_m = 2, aveCC2F = (\<lambda>k. csr_zeros 0 0)\<rparr> 2)
   \<and> [2] \<in> set (weights_shapes \<lparr>nC = 1, dim_m = 2, aveCC2F = (\<lambda>k. csr_zeros 0 0)\<rparr> 2)
   \<and> fst (cross_reference_W
     \<lparr>regularization_mesh = \<lparr>nC = 1, dim_m = 2, aveCC2F = (\<lambda>k. csr_zeros 0 0)\<rparr>,
      cr_mapping = \<lparr>map_shape0 = None, map_apply = (\<lambda>m. m), map_deriv = (\<lambda>m. csr_zeros 0 0)\<rparr>,
      cr_weights = [(''volume'', Arr1 [1]), (''w1'', Arr1 [1]), (''w2'', Arr2 1 2 [[1, 1]])],
      ref_dir = None, X_op = None, W_cache = None, reference_model = None\<rparr>)
   = Inr (sp_diags [sqrt (sqrt 2)])
   \<and> fst (cross_reference_W
     \<lparr>regularization_mesh = \<lparr>nC = 1, dim_m = 2, aveCC2F = (\<lambda>k. csr_zeros 0 0)\<rparr>,
      cr_mapping = \<lparr>map_shape0 = None, map_apply = (\<lambda>m. m), map_deriv = (\<lambda>m. csr_zeros 0 0)\<rparr>,
      cr_weights = [(''volume'', Arr1 [1])],
      ref_dir = None, X_op = None, W_cache = None, reference_model = None\<rparr>)
   = Inr (sp_diags [1])
   \<and> fst (amplitude_smallness_W
     \<lparr>am_mesh = \<lparr>nC = 1, dim_m = 2, aveCC2F = (\<lambda>k. csr_zeros 0 0)\<rparr>,
      am_mapping = \<lparr>map_shape0 = Some 2, map_apply = (\<lambda>m. m), map_deriv = (\<lambda>m. csr_zeros 0 0)\<rparr>,
      am_weights = [(''volume'', Arr1 [1]), (''w1'', Arr1 [1]), (''w2'', Arr1 [1, 1])],
      am_reference_model = None, am_W_cache = None, am_orientation = Ox,
      cell_gradient = csr_zeros 0 0\<rparr>)
   = Inr (sp_diags [sqrt (sqrt 2)])
   \<and> fst (amplitude_smallness_W
     \<lparr>am_mesh = \<lparr>nC = 1, dim_m = 2, aveCC2F = (\<lambda>k. csr_zeros 0 0)\<rparr>,
      am_mapping = \<lparr>map_shape0 = Some 2, map_apply = (\<lambda>m. m), map_deriv = (\<lambda>m. csr_zeros 0 0)\<rparr>,
      am_weights = [(''volume'', Arr1 [1])],
      am_reference_model = None, am_W_cache = None, am_orientation = Ox,
      cell_gradient = csr_zeros 0 0\<rparr>)
   = Inr (sp_diags [1])
   \<and> dense (sp_diags [sqrt (sqrt 2)]) \<noteq> dense (sp_diags [1])"
  by (simp add: cross_reference_W_def amplitude_smallness_W_def n_comp_def reshape_F_def
      row_norm_def dense_def sp_diags_def upt_conv_Cons Let_def weights_shapes_def)

lemma ave_vec:
  "sp_dot (SpMat 3 2 (\<lambda>i j. [[1, 0], [1 / 2, 1 / 2], [0, 1]] ! i ! j)) (Arr1 [a, b])
   = Inr (Arr1 [a, a / 2 + b / 2, b])"
  by (simp add: matvec_def upt_conv_Cons lessThan_Suc numeral_2_eq_2 numeral_3_eq_3)

lemma ave_mat:
  "sp_dot (SpMat 3 2 (\<lambda>i j. [[1, 0], [1 / 2, 1 / 2], [0, 1]] ! i ! j)) (Arr2 2 2 [[1, 1], [1, 1]])
   = Inr (Arr2 3 2 [[1, 1], [1, 1], [1, 1]])"
  by (simp add: matdense_def upt_conv_Cons lessThan_Suc numeral_2_eq_2 numeral_3_eq_3)

lemma reduce_flat:
  "reshape_F_auto (Arr1 [1, 1, 1, 1]) 2 = Inr (Arr2 2 2 [[1, 1], [1, 1]])"
  by (simp add: reshape_F_auto_def reshape_F_def upt_conv_Cons)


text \<open>
  Claim C7 at a failing input: two cells, two components, three faces. The shape
  \<open>(nC, n_comp)\<close> is among the accepted shapes of the smoothness term, but a weight of
  that shape is projected to the faces without being reduced first, the product of the
  weights fails, and \<open>W\<close> raises. The flat weight of shape \<open>(n_comp * nC,)\<close> with the same
  entries is reduced and projected, and \<open>W\<close> is the diagonal matrix of dimension \<open>nF\<close>.
\<close>

theorem smoothness_W_cell_component_weight_raises:
  "[2, 2] \<in> set (smoothness_weights_shapes 2 3 2)
   \<and> fst (amplitude_smoothness_W
     \<lparr>am_mesh = \<lparr>nC = 2, dim_m = 2,
                 aveCC2F = (\<lambda>k. SpMat 3 2 (\<lambda>i j. [[1, 0], [1 / 2, 1 / 2], [0, 1]] ! i ! j))\<rparr>,
      am_mapping = \<lparr>map_shape0 = Some 4, map_apply = (\<lambda>m. m), map_deriv = (\<lambda>m. csr_zeros 0 0)\<rparr>,
      am_weights = [(''volume'', Arr1 [1, 1]), (''w'', Arr2 2 2 [[1, 1], [1, 1]])],
      am_reference_model = None, am_W_cache = None, am_orientation = Ox,
      cell_gradient = csr_zeros 0 0\<rparr>)
     = Inl ValueError
   \<and> fst (amplitude_smoothness_W
     \<lparr>am_mesh = \<lparr>nC = 2, dim_m = 2,
                 aveCC2F = (\<lambda>k. SpMat 3 2 (\<lambda>i j. [[1, 0], [1 / 2, 1 / 2], [0, 1]] ! i ! j))\<rparr>,
      am_mapping = \<lparr>map_shape0 = Some 4, map_apply = (\<lambda>m. m), map_deriv = (\<lambda>m. csr_zeros 0 0)\<rparr>,
      am_weights = [(''w'', Arr2 2 2 [[1, 1], [1, 1]])],
      am_reference_model = None, am_W_cache = None, am_orientation = Ox,
      cell_gradient = csr_zeros 0 0\<rparr>)
     = Inl ValueError
   \<and> fst (amplitude_smoothness_W
     \<lparr>am_mesh = \<lparr>nC = 2, dim_m = 2,
                 aveCC2F = (\<lambda>k. SpMat 3 2 (\<lambda>i j. [[1, 0], [1 / 2, 1 / 2], [0, 1]] ! i ! j))\<rparr>,
      am_mapping = \<lparr>map_shape0 = Some 4, map_apply = (\<lambda>m. m), map_deriv = (\<lambda>m. csr_zeros 0 0)\<rparr>,
      am_weights = [(''volume'', Arr1 [1, 1]), (''w'', Arr1 [1, 1, 1, 1])],
      am_reference_model = None, am_W_cache = None, am_orientation = Ox,
      cell_gradient = csr_zeros 0 0\<rparr>)
     = Inr (sp_diags [sqrt (sqrt 2), sqrt (sqrt 2), sqrt (sqrt 2)])"
proof (intro conjI)
  show "[2, 2] \<in> set (smoothness_weights_shapes 2 3 2)"
    by (simp add: smoothness_weights_shapes_def)
  show "fst (amplitude_smoothness_W
     \<lparr>am_mesh = \<lparr>nC = 2, dim_m = 2,
                 aveCC2F = (\<lambda>k. SpMat 3 2 (\<lambda>i j. [[1, 0], [1 / 2, 1 / 2], [0, 1]] ! i ! j))\<rparr>,
      am_mapping = \<lparr>map_shape0 = Some 4, map_apply = (\<lambda>m. m), map_deriv = (\<lambda>m. csr_zeros 0 0)\<rparr>,
      am_weights = [(''volume'', Arr1 [1, 1]), (''w'', Arr2 2 2 [[1, 1], [1, 1]])],
      am_reference_model = None, am_W_cache = None, am_orientation = Ox,
      cell_gradient = csr_zeros 0 0\<rparr>)
     = Inl ValueError"
    by (simp add: amplitude_smoothness_W_def Let_def ave_vec ave_mat del: sp_dot.simps)
  show "fst (amplitude_smoothness_W
     \<lparr>am_mesh = \<lparr>nC = 2, dim_m = 2,
                 aveCC2F = (\<lambda>k. SpMat 3 2 (\<lambda>i j. [[1, 0], [1 / 2, 1 / 2], [0, 1]] ! i ! j))\<rparr>,
      am_mapping = \<lparr>map_shape0 = Some 4, map_apply = (\<lambda>m. m), map_deriv = (\<lambda>m. csr_zeros 0 0)\<rparr>,
      am_weights = [(''w'', Arr2 2 2 [[1, 1], [1, 1]])],
      am_reference_model = None, am_W_cache = None, am_orientation = Ox,
      cell_gradient = csr_zeros 0 0\<rparr>)
     = Inl ValueError"
    by (simp add: amplitude_smoothness_W_def Let_def ave_mat del: sp_dot.simps)
  show "fst (amplitude_smoothness_W
     \<lparr>am_mesh = \<lparr>nC = 2, dim_m = 2,
                 aveCC2F = (\<lambda>k. SpMat 3 2 (\<lambda>i j. [[1, 0], [1 / 2, 1 / 2], [0, 1]] ! i ! j))\<rparr>,
      am_mapping = \<lparr>map_shape0 = Some 4, map_apply = (\<lambda>m. m), map_deriv = (\<lambda>m. csr_zeros 0 0)\<rparr>,
      am_weights = [(''volume'', Arr1 [1, 1]), (''w'', Arr1 [1, 1, 1, 1])],
      am_reference_model = None, am_W_cache = None, am_orientation = Ox,
      cell_gradient = csr_zeros 0 0\<rparr>)
     = Inr (sp_diags [sqrt (sqrt 2), sqrt (sqrt 2), sqrt (sqrt 2)])"
    by (simp add: amplitude_smoothness_W_def Let_def ave_vec reduce_flat n_comp_def row_norm_def
        del: sp_dot.simps)
qed

end
